theory Spec2Isabelle
  imports Complex_Main "HOL-Library.Sublist" "HOL-Library.AList"
begin

section \<open>Knowledge\_Distillation.py: the two training paths and the entry point\<close>

text \<open>
  The script has three parts: \<^verbatim>\<open>train\<close> (lines 28-95), \<^verbatim>\<open>train_kd\<close> (lines 102-195)
  and the \<^verbatim>\<open>__main__\<close> block (lines 197-292). Everything the script imports from
  \<^verbatim>\<open>src.*\<close>, \<^verbatim>\<open>swin.*\<close>, \<^verbatim>\<open>torch\<close>, \<^verbatim>\<open>wandb\<close> and \<^verbatim>\<open>yaml\<close> is outside the file; those
  collaborators are parameters of the model (the record \<open>ext\<close> below), and the library
  calls whose effect the script relies on (\<^verbatim>\<open>str.replace\<close>, \<^verbatim>\<open>os.path.*\<close>, \<^verbatim>\<open>os.rename\<close>,
  \<^verbatim>\<open>os.makedirs\<close>, \<^verbatim>\<open>load_state_dict\<close>) are written out.
\<close>

subsection \<open>Values, errors, devices\<close>

type_synonym path = string

text \<open>A YAML value as the configuration dictionaries hold it.\<close>

datatype yaml = YStr string | YInt int | YBool bool | YFloat rat | YNull

text \<open>Python truthiness, as \<^verbatim>\<open>fp16 and ...\<close> reads the value of \<^verbatim>\<open>data_config["FP16"]\<close>.\<close>

fun truthy :: "yaml \<Rightarrow> bool" where
  "truthy (YStr s) = (s \<noteq> [])"
| "truthy (YInt i) = (i \<noteq> 0)"
| "truthy (YBool b) = b"
| "truthy (YFloat r) = (r \<noteq> 0)"
| "truthy YNull = False"

text \<open>A dictionary keeps insertion order: an association list, \<^verbatim>\<open>d[k] = v\<close> is
  \<^const>\<open>AList.update\<close> (the value is replaced in place, a new key is appended).\<close>

type_synonym config = "(string \<times> yaml) list"

datatype error =
    KeyError string
  | FileNotFoundError path
  | FileExistsError path
  | IsADirectoryError path
  | OSError path
  | UnpicklingError path
  | AssertionError string
  | RuntimeError string
  | TypeError string
  | ExternalError string

datatype device_type = CPU | CUDA

text \<open>\<^verbatim>\<open>torch.device\<close>: a type and an optional index; \<^verbatim>\<open>torch.device("cpu")\<close> has no index,
  \<^verbatim>\<open>torch.device("cuda:0")\<close> has index 0. Equality compares both.\<close>

datatype device = Device device_type "nat option"

definition cpu :: device where
  "cpu = Device CPU None"

definition cuda0 :: device where
  "cuda0 = Device CUDA (Some 0)"

fun device_type_of :: "device \<Rightarrow> device_type" where
  "device_type_of (Device t i) = t"

subsection \<open>Strings: \<^verbatim>\<open>str.replace\<close>, \<^verbatim>\<open>os.path.join\<close>, \<^verbatim>\<open>os.path.dirname\<close>\<close>

text \<open>\<^verbatim>\<open>s.replace(old, new)\<close> for a non-empty \<^verbatim>\<open>old\<close>: scan from the left, replace each
  occurrence found and continue behind it (occurrences never overlap).\<close>

function str_replace_from :: "string \<Rightarrow> string \<Rightarrow> string \<Rightarrow> string" where
  "str_replace_from old new [] = []"
| "str_replace_from old new (c # cs) =
     (if old \<noteq> [] \<and> take (length old) (c # cs) = old
        then new @ str_replace_from old new (drop (length old) (c # cs))
      else c # str_replace_from old new cs)"
  by pat_completeness auto
termination
  by (relation "measure (\<lambda>(old, new, s). length s)") auto

text \<open>With an empty \<^verbatim>\<open>old\<close> Python puts \<^verbatim>\<open>new\<close> before every character and at the end.\<close>

definition str_replace :: "string \<Rightarrow> string \<Rightarrow> string \<Rightarrow> string" where
  "str_replace old new s =
     (if old = [] then new @ concat (map (\<lambda>c. c # new) s)
      else str_replace_from old new s)"

text \<open>\<^verbatim>\<open>posixpath.join(a, b)\<close> with one component \<^verbatim>\<open>b\<close>.\<close>

definition path_join :: "path \<Rightarrow> path \<Rightarrow> path" where
  "path_join a b =
     (if b \<noteq> [] \<and> hd b = CHR ''/'' then b
      else if a = [] \<or> last a = CHR ''/'' then a @ b
      else a @ ''/'' @ b)"

text \<open>\<^verbatim>\<open>posixpath.dirname(p)\<close>: everything up to the last slash; trailing slashes of that
  head are removed unless the head consists of slashes only.\<close>

definition dirname :: "path \<Rightarrow> path" where
  "dirname p =
     (let head = rev (dropWhile (\<lambda>c. c \<noteq> CHR ''/'') (rev p))
      in if head \<noteq> [] \<and> head \<noteq> replicate (length head) (CHR ''/'')
         then rev (dropWhile (\<lambda>c. c = CHR ''/'') (rev head))
         else head)"

subsection \<open>Teacher checkpoint keys (lines 139-142)\<close>

text \<open>\<^verbatim>\<open>name = n.replace("head.", "")\<close>\<close>

definition rename_key :: "string \<Rightarrow> string" where
  "rename_key n = str_replace ''head.'' [] n"

text \<open>\<^verbatim>\<open>temp = OrderedDict(); for n, v in state_dict.items(): temp[rename_key n] = v\<close>\<close>

fun rename_loop :: "(string \<times> 'v) list \<Rightarrow> (string \<times> 'v) list \<Rightarrow> (string \<times> 'v) list" where
  "rename_loop [] temp = temp"
| "rename_loop ((n, v) # rest) temp = rename_loop rest (AList.update (rename_key n) v temp)"

text \<open>The reading of the specification, for comparison: a leading \<^verbatim>\<open>head.\<close> is removed,
  nothing else of the key changes.\<close>

definition strip_prefix_spec :: "string \<Rightarrow> string" where
  "strip_prefix_spec n = (if take 5 n = ''head.'' then drop 5 n else n)"

subsection \<open>The file system\<close>

text \<open>A file holds either a YAML document or a pickled state dict (parameter name to
  tensor, in order). Every node has a modification time. Paths are compared as strings.\<close>

datatype 'v content = Yaml config | Ckpt "(string \<times> 'v) list"

datatype 'v node = Dir int | File int "'v content"

type_synonym 'v filesys = "(path \<times> 'v node) list"

fun mtime_of :: "'v node \<Rightarrow> int" where
  "mtime_of (Dir t) = t"
| "mtime_of (File t c) = t"

definition path_exists :: "'v filesys \<Rightarrow> path \<Rightarrow> bool" where
  "path_exists fs p = (map_of fs p \<noteq> None)"

definition isfile :: "'v filesys \<Rightarrow> path \<Rightarrow> bool" where
  "isfile fs p = (case map_of fs p of Some (File t c) \<Rightarrow> True | _ \<Rightarrow> False)"

definition isdir :: "'v filesys \<Rightarrow> path \<Rightarrow> bool" where
  "isdir fs p = (case map_of fs p of Some (Dir t) \<Rightarrow> True | _ \<Rightarrow> False)"

text \<open>\<^verbatim>\<open>os.path.getmtime\<close> raises when nothing is at the path.\<close>

definition getmtime :: "'v filesys \<Rightarrow> path \<Rightarrow> error + int" where
  "getmtime fs p =
     (case map_of fs p of None \<Rightarrow> Inl (FileNotFoundError p) | Some n \<Rightarrow> Inr (mtime_of n))"

text \<open>\<open>under d p\<close>: the path \<open>p\<close> is \<open>d\<close> itself or lies beneath the directory \<open>d\<close>.\<close>

definition under :: "path \<Rightarrow> path \<Rightarrow> bool" where
  "under d p = (p = d \<or> take (Suc (length d)) p = d @ ''/'')"

text \<open>\<^verbatim>\<open>os.rename(old, new)\<close> on POSIX: the source must exist, the target must not lie
  inside the source, and a target that exists must be an empty directory. The node and
  everything beneath it move.\<close>

definition os_rename :: "path \<Rightarrow> path \<Rightarrow> 'v filesys \<Rightarrow> error + 'v filesys" where
  "os_rename old new fs =
     (if map_of fs old = None then Inl (FileNotFoundError old)
      else if new = old then Inr fs
      else if under old new then Inl (OSError new)
      else if isfile fs new \<or> filter (\<lambda>p. p \<noteq> new \<and> under new p) (map fst fs) \<noteq> []
        then Inl (OSError new)
      else Inr (map (\<lambda>(p, n). if under old p then (new @ drop (length old) p, n) else (p, n))
                  (filter (\<lambda>e. fst e \<noteq> new) fs)))"

text \<open>The proper ancestors of a path, shortest first: the part before each slash that
  follows a character other than a slash.\<close>

definition ancestors :: "path \<Rightarrow> path list" where
  "ancestors p =
     map (\<lambda>i. take i p)
       (filter (\<lambda>i. p ! i = CHR ''/'' \<and> p ! (i - 1) \<noteq> CHR ''/'') [1 ..< length p])"

fun mkdir_missing :: "int \<Rightarrow> 'v filesys \<Rightarrow> path list \<Rightarrow> 'v filesys" where
  "mkdir_missing now fs [] = fs"
| "mkdir_missing now fs (q # qs) =
     mkdir_missing now (if map_of fs q = None then fs @ [(q, Dir now)] else fs) qs"

text \<open>\<^verbatim>\<open>os.makedirs(p, exist_ok=True)\<close>: an existing directory is left alone, a file in the
  way is an error, otherwise the directory and its missing ancestors are created.\<close>

definition makedirs :: "int \<Rightarrow> path \<Rightarrow> 'v filesys \<Rightarrow> error + 'v filesys" where
  "makedirs now p fs =
     (if p = [] then Inl (FileNotFoundError p)
      else if filter (isfile fs) (ancestors p @ [p]) \<noteq> [] then Inl (FileExistsError p)
      else Inr (mkdir_missing now fs (ancestors p @ [p])))"

text \<open>\<^verbatim>\<open>open(p, "w")\<close> followed by a dump: the containing directory must exist.\<close>

definition write_file :: "int \<Rightarrow> path \<Rightarrow> 'v content \<Rightarrow> 'v filesys \<Rightarrow> error + 'v filesys" where
  "write_file now p c fs =
     (if isdir fs p then Inl (IsADirectoryError p)
      else if dirname p \<noteq> [] \<and> \<not> isdir fs (dirname p) then Inl (FileNotFoundError p)
      else Inr (AList.update p (File now c) fs))"

text \<open>\<^verbatim>\<open>torch.load(p)\<close>: the file must exist and hold a pickled state dict.\<close>

definition torch_load :: "path \<Rightarrow> 'v filesys \<Rightarrow> error + (string \<times> 'v) list" where
  "torch_load p fs =
     (case map_of fs p of
        None \<Rightarrow> Inl (FileNotFoundError p)
      | Some (Dir t) \<Rightarrow> Inl (IsADirectoryError p)
      | Some (File t (Yaml c)) \<Rightarrow> Inl (UnpicklingError p)
      | Some (File t (Ckpt sd)) \<Rightarrow> Inr sd)"

subsection \<open>The state of a run\<close>

text \<open>The trace records what the script does that is visible from outside, in order,
  and each entry into one of the two training functions.\<close>

datatype event =
    SetSeed int
  | WandbInit string
  | WandbRunSave
  | WandbConfigUpdate config
  | Print string
  | CallTrain
  | CallTrainKD
  | TrainerTrain
  | TrainerTrainKD
  | TrainerTest

text \<open>Tensors live in a heap, addressed by position; a module refers to its parameters
  by address, so two modules may or may not share a tensor.\<close>

record 'v world =
  w_fs :: "'v filesys"
  w_heap :: "'v list"
  w_clock :: int
  w_trace :: "event list"

type_synonym ('a, 'v) prog = "'v world \<Rightarrow> (error + 'a) \<times> 'v world"

text \<open>Sequencing: an exception ends the run, and the state reached so far stays.\<close>

definition and_then :: "('a, 'v) prog \<Rightarrow> ('a \<Rightarrow> ('b, 'v) prog) \<Rightarrow> ('b, 'v) prog" where
  "and_then m f w = (case m w of (Inl e, w') \<Rightarrow> (Inl e, w') | (Inr a, w') \<Rightarrow> f a w')"

definition ret :: "'a \<Rightarrow> ('a, 'v) prog" where
  "ret a w = (Inr a, w)"

definition raise :: "error \<Rightarrow> ('a, 'v) prog" where
  "raise e w = (Inl e, w)"

definition lift :: "error + 'a \<Rightarrow> ('a, 'v) prog" where
  "lift r w = (r, w)"

definition emit :: "event \<Rightarrow> (unit, 'v) prog" where
  "emit e w = (Inr (), w\<lparr>w_trace := w_trace w @ [e]\<rparr>)"

definition fs_read :: "('v filesys \<Rightarrow> error + 'a) \<Rightarrow> ('a, 'v) prog" where
  "fs_read f w = (f (w_fs w), w)"

definition fs_op :: "('v filesys \<Rightarrow> error + 'v filesys) \<Rightarrow> (unit, 'v) prog" where
  "fs_op f w = (case f (w_fs w) of Inl e \<Rightarrow> (Inl e, w) | Inr fs' \<Rightarrow> (Inr (), w\<lparr>w_fs := fs'\<rparr>))"

text \<open>\<^verbatim>\<open>d[k]\<close> raises \<^verbatim>\<open>KeyError\<close> on a missing key.\<close>

definition getitem :: "config \<Rightarrow> string \<Rightarrow> error + yaml" where
  "getitem d k = (case map_of d k of None \<Rightarrow> Inl (KeyError k) | Some v \<Rightarrow> Inr v)"

subsection \<open>Modules and \<^verbatim>\<open>load_state_dict\<close>\<close>

record module =
  m_params :: "(string \<times> nat) list"
  m_device :: device

text \<open>Constructing a module allocates one fresh tensor for each of its parameters.\<close>

definition new_module :: "(string \<times> 'v) list \<Rightarrow> (module, 'v) prog" where
  "new_module init w =
     (Inr \<lparr>m_params = zip (map fst init)
                         [length (w_heap w) ..< length (w_heap w) + length init],
           m_device = cpu\<rparr>,
      w\<lparr>w_heap := w_heap w @ map snd init\<rparr>)"

text \<open>\<^verbatim>\<open>module.to(device)\<close> keeps the parameter objects and their values.\<close>

definition to_device :: "module \<Rightarrow> device \<Rightarrow> module" where
  "to_device m d = m\<lparr>m_device := d\<rparr>"

definition parameters :: "module \<Rightarrow> nat list" where
  "parameters m = map snd (m_params m)"

definition state_dict :: "module \<Rightarrow> 'v list \<Rightarrow> (string \<times> 'v) list" where
  "state_dict m h = map (\<lambda>(n, a). (n, h ! a)) (m_params m)"

text \<open>\<^verbatim>\<open>load_state_dict\<close> copies, parameter by parameter, every value whose key is present
  and whose shape fits; after that it raises if a shape did not fit or, when
  \<^verbatim>\<open>strict\<close>, if a key was missing or unexpected. The copies made before are kept.\<close>

fun copy_params ::
  "('v \<Rightarrow> 'v \<Rightarrow> bool) \<Rightarrow> (string \<times> 'v) list \<Rightarrow> 'v list \<Rightarrow> (string \<times> nat) list \<Rightarrow> 'v list"
where
  "copy_params same sd h [] = h"
| "copy_params same sd h ((n, a) # ps) =
     copy_params same sd
       (case map_of sd n of
          Some v \<Rightarrow> if same (h ! a) v then h[a := v] else h
        | None \<Rightarrow> h) ps"

definition load_state_dict ::
  "('v \<Rightarrow> 'v \<Rightarrow> bool) \<Rightarrow> module \<Rightarrow> (string \<times> 'v) list \<Rightarrow> bool \<Rightarrow> (unit, 'v) prog"
where
  "load_state_dict same m sd strict w =
     (let h = w_heap w;
          ps = m_params m;
          missing = filter (\<lambda>n. map_of sd n = None) (map fst ps);
          unexpected = filter (\<lambda>k. map_of ps k = None) (map fst sd);
          mismatched = filter (\<lambda>(n, a). case map_of sd n of
                                          Some v \<Rightarrow> \<not> same (h ! a) v | None \<Rightarrow> False) ps;
          w' = w\<lparr>w_heap := copy_params same sd h ps\<rparr>
      in if (strict \<and> (missing \<noteq> [] \<or> unexpected \<noteq> [])) \<or> mismatched \<noteq> []
         then (Inl (RuntimeError ''Error(s) in loading state_dict''), w')
         else (Inr (), w'))"

subsection \<open>Collaborators outside the file\<close>

datatype criterion_kind = CustomCriterion | CustomCriterion_KD

record criterion =
  c_kind :: criterion_kind
  c_samples_per_cls :: "nat list option"
  c_device :: device

record optimizer =
  o_params :: "nat list"
  o_lr :: yaml
  o_momentum :: rat

record scheduler =
  s_max_lr :: yaml
  s_steps_per_epoch :: nat
  s_epochs :: yaml
  s_pct_start :: rat

datatype scaler = GradScaler

record trainer =
  t_model :: module
  t_teacher_model :: "module option"
  t_criterion :: criterion
  t_optimizer :: optimizer
  t_scheduler :: scheduler
  t_scaler :: "scaler option"
  t_device :: device
  t_model_path :: path
  t_verbose :: nat

text \<open>What the script calls and does not define. \<open>Model\<close> and \<open>build_model\<close> give the
  parameter names of the network they construct with the initial tensors; a data loader
  is the list of its batches (or \<^verbatim>\<open>None\<close>); \<open>same_shape\<close> is the shape test of
  \<^verbatim>\<open>load_state_dict\<close>; \<open>strftime\<close> is
  \<^verbatim>\<open>datetime.fromtimestamp(t).strftime("%Y-%m-%d_%H-%M-%S")\<close>. The three methods of
  \<^verbatim>\<open>TorchTrainer\<close> may read and change files and tensors.\<close>

record ('v, 'b) ext =
  read_yaml :: "string \<Rightarrow> error + config"
  get_config :: "string \<Rightarrow> error + config"
  cuda_is_available :: bool
  strftime :: "int \<Rightarrow> string"
  Model :: "config \<Rightarrow> error + (string \<times> 'v) list"
  build_model :: "config \<Rightarrow> error + (string \<times> 'v) list"
  create_dataloader ::
    "config \<Rightarrow> error + ('b list option \<times> 'b list option \<times> 'b list option)"
  get_label_counts :: "yaml \<Rightarrow> error + nat list"
  same_shape :: "'v \<Rightarrow> 'v \<Rightarrow> bool"
  trainer_train ::
    "trainer \<Rightarrow> 'b list option \<Rightarrow> yaml \<Rightarrow> 'b list option \<Rightarrow> (rat \<times> rat, 'v) prog"
  trainer_train_kd ::
    "trainer \<Rightarrow> 'b list option \<Rightarrow> yaml \<Rightarrow> 'b list option \<Rightarrow> (rat \<times> rat, 'v) prog"
  trainer_test ::
    "trainer \<Rightarrow> module \<Rightarrow> 'b list option \<Rightarrow> (rat \<times> rat \<times> rat, 'v) prog"

text \<open>A collaborator works on files and tensors; the record of calls is the script's.\<close>

definition call_ext :: "('a, 'v) prog \<Rightarrow> ('a, 'v) prog" where
  "call_ext f w = (case f w of (r, w') \<Rightarrow> (r, w'\<lparr>w_trace := w_trace w\<rparr>))"

text \<open>\<^verbatim>\<open>val_dl if val_dl else test_dl\<close>: a loader counts as false when it is \<^verbatim>\<open>None\<close> or
  has no batch.\<close>

definition pick_val :: "'b list option \<Rightarrow> 'b list option \<Rightarrow> 'b list option" where
  "pick_val val_dl test_dl =
     (case val_dl of Some (b # bs) \<Rightarrow> val_dl | _ \<Rightarrow> test_dl)"

text \<open>\<^verbatim>\<open>len(train_dl)\<close>\<close>

definition len_dl :: "'b list option \<Rightarrow> error + nat" where
  "len_dl dl = (case dl of None \<Rightarrow> Inl (TypeError ''len'') | Some bs \<Rightarrow> Inr (length bs))"

subsection \<open>Blocks that \<^verbatim>\<open>train\<close> and \<^verbatim>\<open>train_kd\<close> have in common\<close>

text \<open>Lines 37-40 and 117-120: the two configurations are written into the log
  directory.\<close>

definition dump_configs :: "path \<Rightarrow> config \<Rightarrow> config \<Rightarrow> (unit, 'v) prog" where
  "dump_configs log_dir data_config model_config =
     and_then (\<lambda>w. fs_op (write_file (w_clock w) (path_join log_dir ''data.yml'')
                              (Yaml data_config)) w) (\<lambda>_.
       (\<lambda>w. fs_op (write_file (w_clock w) (path_join log_dir ''model.yml'')
                              (Yaml model_config)) w))"

text \<open>Lines 52-54 and 151-153: SGD over the parameters of one module.\<close>

definition make_optimizer :: "module \<Rightarrow> config \<Rightarrow> error + optimizer" where
  "make_optimizer m data_config =
     (case getitem data_config ''INIT_LR'' of
        Inl e \<Rightarrow> Inl e
      | Inr lr \<Rightarrow> Inr \<lparr>o_params = parameters m, o_lr = lr, o_momentum = 9 / 10\<rparr>)"

text \<open>Lines 55-61 and 154-160.\<close>

definition make_scheduler :: "config \<Rightarrow> 'b list option \<Rightarrow> error + scheduler" where
  "make_scheduler data_config train_dl =
     (case getitem data_config ''INIT_LR'' of
        Inl e \<Rightarrow> Inl e
      | Inr lr \<Rightarrow>
         (case len_dl train_dl of
            Inl e \<Rightarrow> Inl e
          | Inr n \<Rightarrow>
             (case getitem data_config ''EPOCHS'' of
                Inl e \<Rightarrow> Inl e
              | Inr ep \<Rightarrow> Inr \<lparr>s_max_lr = lr, s_steps_per_epoch = n, s_epochs = ep,
                               s_pct_start = 5 / 100\<rparr>)))"

text \<open>Lines 62-67 and 161-166: the label counts are read for the TACO data set only.\<close>

definition make_criterion ::
  "('v, 'b) ext \<Rightarrow> criterion_kind \<Rightarrow> config \<Rightarrow> device \<Rightarrow> error + criterion"
where
  "make_criterion x kind data_config device =
     (case getitem data_config ''DATASET'' of
        Inl e \<Rightarrow> Inl e
      | Inr ds \<Rightarrow>
         if ds = YStr ''TACO'' then
           (case getitem data_config ''DATA_PATH'' of
              Inl e \<Rightarrow> Inl e
            | Inr p \<Rightarrow>
               (case get_label_counts x p of
                  Inl e \<Rightarrow> Inl e
                | Inr counts \<Rightarrow>
                    Inr \<lparr>c_kind = kind, c_samples_per_cls = Some counts, c_device = device\<rparr>))
         else Inr \<lparr>c_kind = kind, c_samples_per_cls = None, c_device = device\<rparr>)"

text \<open>Lines 69-71 and 168-170:
  \<^verbatim>\<open>GradScaler() if fp16 and device != torch.device("cpu") else None\<close>\<close>

definition make_scaler :: "yaml \<Rightarrow> device \<Rightarrow> scaler option" where
  "make_scaler fp16 device = (if truthy fp16 \<and> device \<noteq> cpu then Some GradScaler else None)"

text \<open>Lines 91-95 and 191-195: the best checkpoint is loaded back into the trained
  module (strictly), one test pass runs, and its three numbers are returned.\<close>

definition final_test ::
  "('v, 'b) ext \<Rightarrow> trainer \<Rightarrow> module \<Rightarrow> path \<Rightarrow> 'b list option \<Rightarrow> 'b list option
     \<Rightarrow> (rat \<times> rat \<times> rat, 'v) prog"
where
  "final_test x tr m model_path val_dl test_dl =
     and_then (fs_read (torch_load model_path)) (\<lambda>sd.
     and_then (load_state_dict (same_shape x) m sd True) (\<lambda>_.
     and_then (emit TrainerTest) (\<lambda>_.
     and_then (call_ext (trainer_test x tr m (pick_val val_dl test_dl)))
       (\<lambda>(test_loss, test_f1, test_acc).
     ret (test_loss, test_f1, test_acc)))))"

subsection \<open>\<^verbatim>\<open>train\<close> (lines 28-95)\<close>

text \<open>Lines 37-83, up to the construction of the trainer.\<close>

definition train_setup ::
  "('v, 'b) ext \<Rightarrow> config \<Rightarrow> config \<Rightarrow> path \<Rightarrow> yaml \<Rightarrow> device
     \<Rightarrow> (trainer \<times> module \<times> path \<times> 'b list option \<times> 'b list option \<times> 'b list option, 'v) prog"
where
  "train_setup x model_config data_config log_dir fp16 device =
     and_then (dump_configs log_dir data_config model_config) (\<lambda>_.
     and_then (lift (Model x model_config)) (\<lambda>init.
     and_then (new_module init) (\<lambda>m0.
     let model_path = path_join log_dir ''best.pt'' in
     and_then (emit (Print (''Model save path: '' @ model_path))) (\<lambda>_.
     let m = to_device m0 device in
     and_then (lift (create_dataloader x data_config)) (\<lambda>(train_dl, val_dl, test_dl).
     and_then (lift (make_optimizer m data_config)) (\<lambda>optimizer.
     and_then (lift (make_scheduler data_config train_dl)) (\<lambda>scheduler.
     and_then (lift (make_criterion x CustomCriterion data_config device)) (\<lambda>criterion.
     let scaler = make_scaler fp16 device;
         tr = \<lparr>t_model = m, t_teacher_model = None, t_criterion = criterion,
               t_optimizer = optimizer, t_scheduler = scheduler, t_scaler = scaler,
               t_device = device, t_model_path = model_path, t_verbose = 1\<rparr>
     in ret (tr, m, model_path, train_dl, val_dl, test_dl)))))))))"

text \<open>Lines 84-95: the training loop of the trainer, then the final test.\<close>

definition train_run ::
  "('v, 'b) ext \<Rightarrow> config
     \<Rightarrow> trainer \<times> module \<times> path \<times> 'b list option \<times> 'b list option \<times> 'b list option
     \<Rightarrow> (rat \<times> rat \<times> rat, 'v) prog"
where
  "train_run x data_config = (\<lambda>(tr, m, model_path, train_dl, val_dl, test_dl).
     and_then (lift (getitem data_config ''EPOCHS'')) (\<lambda>n_epoch.
     and_then (emit TrainerTrain) (\<lambda>_.
     and_then (call_ext (trainer_train x tr train_dl n_epoch (pick_val val_dl test_dl)))
       (\<lambda>(best_acc, best_f1).
     final_test x tr m model_path val_dl test_dl))))"

definition train ::
  "('v, 'b) ext \<Rightarrow> config \<Rightarrow> config \<Rightarrow> path \<Rightarrow> yaml \<Rightarrow> device \<Rightarrow> (rat \<times> rat \<times> rat, 'v) prog"
where
  "train x model_config data_config log_dir fp16 device =
     and_then (emit CallTrain) (\<lambda>_.
     and_then (train_setup x model_config data_config log_dir fp16 device)
       (train_run x data_config))"

subsection \<open>\<^verbatim>\<open>train_kd\<close> (lines 102-195)\<close>

text \<open>Lines 116-183: the student, the teacher with its checkpoint, the trainer.\<close>

definition train_kd_setup ::
  "('v, 'b) ext \<Rightarrow> config \<Rightarrow> config \<Rightarrow> path \<Rightarrow> config \<Rightarrow> path \<Rightarrow> yaml \<Rightarrow> device
     \<Rightarrow> (trainer \<times> module \<times> module \<times> path
          \<times> 'b list option \<times> 'b list option \<times> 'b list option, 'v) prog"
where
  "train_kd_setup x student_model_config teacher_model_config teacher_ckpt data_config
       log_dir fp16 device =
     and_then (dump_configs log_dir data_config student_model_config) (\<lambda>_.
     and_then (lift (Model x student_model_config)) (\<lambda>init.
     and_then (new_module init) (\<lambda>s0.
     let model_path = path_join log_dir ''best.pt'' in
     and_then (emit (Print (''Student_Model save path: '' @ model_path))) (\<lambda>_.
     let student_model = to_device s0 device in
     and_then (lift (build_model x teacher_model_config)) (\<lambda>tinit.
     and_then (new_module tinit) (\<lambda>t0.
     let checkpoint = teacher_ckpt in
     and_then (emit (Print (''Teacher_Model load: '' @ checkpoint))) (\<lambda>_.
     and_then (fs_read (torch_load checkpoint)) (\<lambda>state_dict.
     let temp = rename_loop state_dict [] in
     and_then (load_state_dict (same_shape x) t0 temp False) (\<lambda>_.
     let teacher_model = to_device t0 device in
     and_then (lift (create_dataloader x data_config)) (\<lambda>(train_dl, val_dl, test_dl).
     and_then (lift (make_optimizer student_model data_config)) (\<lambda>optimizer.
     and_then (lift (make_scheduler data_config train_dl)) (\<lambda>scheduler.
     and_then (lift (make_criterion x CustomCriterion_KD data_config device)) (\<lambda>criterion.
     let scaler = make_scaler fp16 device;
         tr = \<lparr>t_model = student_model, t_teacher_model = Some teacher_model,
               t_criterion = criterion, t_optimizer = optimizer, t_scheduler = scheduler,
               t_scaler = scaler, t_device = device, t_model_path = model_path,
               t_verbose = 1\<rparr>
     in ret (tr, student_model, teacher_model, model_path,
             train_dl, val_dl, test_dl))))))))))))))"

text \<open>Lines 185-195.\<close>

definition train_kd_run ::
  "('v, 'b) ext \<Rightarrow> config
     \<Rightarrow> trainer \<times> module \<times> module \<times> path \<times> 'b list option \<times> 'b list option \<times> 'b list option
     \<Rightarrow> (rat \<times> rat \<times> rat, 'v) prog"
where
  "train_kd_run x data_config =
     (\<lambda>(tr, student_model, teacher_model, model_path, train_dl, val_dl, test_dl).
     and_then (lift (getitem data_config ''EPOCHS'')) (\<lambda>n_epoch.
     and_then (emit TrainerTrainKD) (\<lambda>_.
     and_then (call_ext (trainer_train_kd x tr train_dl n_epoch (pick_val val_dl test_dl)))
       (\<lambda>(best_acc, best_f1).
     final_test x tr student_model model_path val_dl test_dl))))"

definition train_kd ::
  "('v, 'b) ext \<Rightarrow> config \<Rightarrow> config \<Rightarrow> path \<Rightarrow> config \<Rightarrow> path \<Rightarrow> yaml \<Rightarrow> device
     \<Rightarrow> (rat \<times> rat \<times> rat, 'v) prog"
where
  "train_kd x student_model_config teacher_model_config teacher_ckpt data_config
       log_dir fp16 device =
     and_then (emit CallTrainKD) (\<lambda>_.
     and_then (train_kd_setup x student_model_config teacher_model_config teacher_ckpt
                 data_config log_dir fp16 device)
       (train_kd_run x data_config))"

subsection \<open>The entry point (lines 197-292)\<close>

text \<open>The command line as \<^verbatim>\<open>argparse\<close> sees it: for each option the string given for
  it, or nothing when the option is absent. The seed is already a number
  (\<^verbatim>\<open>argparse\<close> ends the process on a string that \<^verbatim>\<open>int\<close> rejects).\<close>

record cli =
  cli_model :: "string option"
  cli_teacher_model :: "string option"
  cli_teacher_checkpoints :: "string option"
  cli_distill_mode :: "string option"
  cli_data :: "string option"
  cli_seed :: "int option"
  cli_run_name :: "string option"

record py_args =
  arg_model :: string
  arg_teacher_model :: string
  arg_teacher_checkpoints :: string
  arg_distill_mode :: bool
  arg_data :: string
  arg_seed :: int
  arg_run_name :: string

text \<open>\<^verbatim>\<open>type=bool\<close> applies \<^verbatim>\<open>bool\<close> to the string: true unless the string is empty.\<close>

definition py_bool :: "string \<Rightarrow> bool" where
  "py_bool s = (s \<noteq> [])"

definition parse_args :: "cli \<Rightarrow> py_args" where
  "parse_args c =
     \<lparr>arg_model = (case cli_model c of None \<Rightarrow> ''configs/model/mobilenetv3.yaml'' | Some s \<Rightarrow> s),
      arg_teacher_model = (case cli_teacher_model c of
                             None \<Rightarrow> ''swin/configs/swin_base_patch4_window7_224.yaml''
                           | Some s \<Rightarrow> s),
      arg_teacher_checkpoints = (case cli_teacher_checkpoints c of
                                   None \<Rightarrow> ''exp/swin_teacher/best.pt'' | Some s \<Rightarrow> s),
      arg_distill_mode = (case cli_distill_mode c of None \<Rightarrow> False | Some s \<Rightarrow> py_bool s),
      arg_data = (case cli_data c of None \<Rightarrow> ''configs/data/taco.yaml'' | Some s \<Rightarrow> s),
      arg_seed = (case cli_seed c of None \<Rightarrow> 42 | Some i \<Rightarrow> i),
      arg_run_name = (case cli_run_name c of None \<Rightarrow> ''exp'' | Some s \<Rightarrow> s)\<rparr>"

text \<open>\<^verbatim>\<open>os.environ.get(k, default)\<close>\<close>

definition environ_get :: "(string \<times> string) list \<Rightarrow> string \<Rightarrow> 'a \<Rightarrow> (string \<Rightarrow> 'a) \<Rightarrow> 'a" where
  "environ_get environ k dflt conv = (case map_of environ k of None \<Rightarrow> dflt | Some s \<Rightarrow> conv s)"

text \<open>Lines 256-259: an existing log directory is moved aside, named after the
  modification time of the \<^verbatim>\<open>best.pt\<close> in it.\<close>

definition rotate_log_dir :: "('v, 'b) ext \<Rightarrow> path \<Rightarrow> (unit, 'v) prog" where
  "rotate_log_dir x log_dir w =
     (if path_exists (w_fs w) log_dir then
        and_then (fs_read (\<lambda>fs. getmtime fs (log_dir @ ''/best.pt''))) (\<lambda>modified.
          let new_log_dir = dirname log_dir @ ''/'' @ strftime x modified
          in fs_op (os_rename log_dir new_log_dir)) w
      else ret () w)"

text \<open>Lines 245-254: the configurations, the seed, the two environment variables and
  the device.\<close>

definition load_settings ::
  "('v, 'b) ext \<Rightarrow> (string \<times> string) list \<Rightarrow> py_args
     \<Rightarrow> (config \<times> config \<times> path \<times> config \<times> device \<times> path, 'v) prog"
where
  "load_settings x environ a =
     and_then (lift (read_yaml x (arg_model a))) (\<lambda>model_config.
     and_then (lift (get_config x (arg_teacher_model a))) (\<lambda>tc_model_config.
     let tc_ckpt = arg_teacher_checkpoints a in
     and_then (lift (read_yaml x (arg_data a))) (\<lambda>data_config0.
     and_then (emit (SetSeed (arg_seed a))) (\<lambda>_.
     and_then (lift (getitem data_config0 ''DATA_PATH'')) (\<lambda>dflt.
     let data_config = AList.update ''DATA_PATH''
                         (environ_get environ ''SM_CHANNEL_TRAIN'' dflt YStr) data_config0;
         device = (if cuda_is_available x then cuda0 else cpu);
         log_dir = environ_get environ ''SM_MODEL_DIR'' (path_join ''exp'' ''latest'') id
     in ret (model_config, tc_model_config, tc_ckpt, data_config, device, log_dir))))))"

text \<open>Lines 256-268: rotation, the fresh log directory, the logging session.\<close>

definition prepare_run :: "('v, 'b) ext \<Rightarrow> py_args \<Rightarrow> config \<Rightarrow> config \<Rightarrow> path \<Rightarrow> (unit, 'v) prog" where
  "prepare_run x a model_config data_config log_dir =
     and_then (rotate_log_dir x log_dir) (\<lambda>_.
     and_then (\<lambda>w. fs_op (makedirs (w_clock w) log_dir) w) (\<lambda>_.
     and_then (emit (WandbInit (arg_run_name a))) (\<lambda>_.
     and_then (emit WandbRunSave) (\<lambda>_.
     and_then (emit (WandbConfigUpdate model_config)) (\<lambda>_.
     emit (WandbConfigUpdate data_config))))))"

text \<open>Lines 270-292: the mode check. \<^verbatim>\<open>data_config["FP16"]\<close> is read when the call is
  made, in the distillation branch after the assertion.\<close>

definition dispatch ::
  "('v, 'b) ext \<Rightarrow> py_args \<Rightarrow> config \<times> config \<times> path \<times> config \<times> device \<times> path
     \<Rightarrow> (rat \<times> rat \<times> rat, 'v) prog"
where
  "dispatch x a = (\<lambda>(model_config, tc_model_config, tc_ckpt, data_config, device, log_dir) w.
     if arg_distill_mode a = True then
       (if isfile (w_fs w) tc_ckpt then
          and_then (lift (getitem data_config ''FP16'')) (\<lambda>fp16.
            train_kd x model_config tc_model_config tc_ckpt data_config log_dir fp16 device) w
        else raise (AssertionError (''No ckpt file found at '' @ tc_ckpt)) w)
     else
       and_then (lift (getitem data_config ''FP16'')) (\<lambda>fp16.
         train x model_config data_config log_dir fp16 device) w)"

definition main ::
  "('v, 'b) ext \<Rightarrow> (string \<times> string) list \<Rightarrow> cli \<Rightarrow> (rat \<times> rat \<times> rat, 'v) prog"
where
  "main x environ c =
     (let a = parse_args c in
      and_then (load_settings x environ a)
        (\<lambda>(model_config, tc_model_config, tc_ckpt, data_config, device, log_dir).
      and_then (prepare_run x a model_config data_config log_dir) (\<lambda>_.
      dispatch x a (model_config, tc_model_config, tc_ckpt, data_config, device, log_dir))))"

subsection \<open>The trainer, as the specification describes it\<close>

text \<open>Modelled from the spec: the optimizer step of \<^verbatim>\<open>TorchTrainer\<close> (\<^verbatim>\<open>src/trainer.py\<close> is
  not among the sources). Sections 4.1 and 4.2: for a batch the predictions (and, in
  distillation, the teacher's logits, without gradient tracking) give one scalar loss,
  it is backpropagated and the optimizer steps. \<open>upd tr h b a\<close> is the new value of the
  tensor at address \<open>a\<close>, computed from all tensors \<open>h\<close> before the step; the optimizer
  writes the tensors it was constructed over.\<close>

definition optimizer_step ::
  "(trainer \<Rightarrow> 'v list \<Rightarrow> 'b \<Rightarrow> nat \<Rightarrow> 'v) \<Rightarrow> trainer \<Rightarrow> 'b \<Rightarrow> 'v list \<Rightarrow> 'v list"
where
  "optimizer_step upd tr b h =
     foldl (\<lambda>h' a. h'[a := upd tr h b a]) h (o_params (t_optimizer tr))"

text \<open>Modelled from the spec: one epoch of \<^verbatim>\<open>TorchTrainer\<close> iterates all training batches
  (section 4.1).\<close>

fun train_batches ::
  "(trainer \<Rightarrow> 'v list \<Rightarrow> 'b \<Rightarrow> nat \<Rightarrow> 'v) \<Rightarrow> trainer \<Rightarrow> 'b list \<Rightarrow> 'v list \<Rightarrow> 'v list"
where
  "train_batches upd tr [] h = h"
| "train_batches upd tr (b # bs) h = train_batches upd tr bs (optimizer_step upd tr b h)"

text \<open>Modelled from the spec: the epoch loop of \<^verbatim>\<open>TorchTrainer.train\<close> and
  \<^verbatim>\<open>TorchTrainer.train_kd\<close> (section 4.1, and 4.2 "identical epoch/batch structure"):
  after each epoch the model is evaluated on the held-out split (\<open>evalf\<close> gives loss, F1
  and accuracy), and its parameters are saved at the checkpoint path whenever F1
  improves over all prior epochs. The best accuracy and the best F1 seen are kept.\<close>

fun spec_epochs ::
  "(trainer \<Rightarrow> 'v list \<Rightarrow> 'b \<Rightarrow> nat \<Rightarrow> 'v) \<Rightarrow> (trainer \<Rightarrow> 'v list \<Rightarrow> 'b list option \<Rightarrow> rat \<times> rat \<times> rat)
     \<Rightarrow> trainer \<Rightarrow> 'b list \<Rightarrow> 'b list option \<Rightarrow> nat \<Rightarrow> (rat \<times> rat) option
     \<Rightarrow> ((rat \<times> rat) option, 'v) prog"
where
  "spec_epochs upd evalf tr bs val_dl 0 best w = (Inr best, w)"
| "spec_epochs upd evalf tr bs val_dl (Suc n) best w =
     (let h = train_batches upd tr bs (w_heap w);
          w1 = w\<lparr>w_heap := h\<rparr>;
          f1 = fst (snd (evalf tr h val_dl));
          acc = snd (snd (evalf tr h val_dl));
          improved = (case best of None \<Rightarrow> True | Some (ba, bf) \<Rightarrow> bf < f1);
          best' = (case best of None \<Rightarrow> (acc, f1) | Some (ba, bf) \<Rightarrow> (max ba acc, max bf f1))
      in if improved then
           (case write_file (w_clock w1) (t_model_path tr)
                   (Ckpt (state_dict (t_model tr) h)) (w_fs w1) of
              Inl e \<Rightarrow> (Inl e, w1)
            | Inr fs' \<Rightarrow> spec_epochs upd evalf tr bs val_dl n (Some best') (w1\<lparr>w_fs := fs'\<rparr>))
         else spec_epochs upd evalf tr bs val_dl n (Some best') w1)"

text \<open>Modelled from the spec: \<^verbatim>\<open>TorchTrainer.train_kd\<close> (section 4.2), the loop above for
  \<^verbatim>\<open>n_epoch\<close> epochs, returning the best accuracy and the best F1 seen. The specification
  does not say what is returned when there is no epoch; the model returns zeros.\<close>

definition spec_train_kd ::
  "(trainer \<Rightarrow> 'v list \<Rightarrow> 'b \<Rightarrow> nat \<Rightarrow> 'v) \<Rightarrow> (trainer \<Rightarrow> 'v list \<Rightarrow> 'b list option \<Rightarrow> rat \<times> rat \<times> rat)
     \<Rightarrow> trainer \<Rightarrow> 'b list option \<Rightarrow> yaml \<Rightarrow> 'b list option \<Rightarrow> (rat \<times> rat, 'v) prog"
where
  "spec_train_kd upd evalf tr train_dl n_epoch val_dl =
     (case train_dl of
        None \<Rightarrow> raise (TypeError ''train_dataloader'')
      | Some bs \<Rightarrow>
         (case n_epoch of
            YInt n \<Rightarrow>
              and_then (spec_epochs upd evalf tr bs val_dl (nat n) None) (\<lambda>best.
                ret (case best of None \<Rightarrow> (0, 0) | Some b \<Rightarrow> b))
          | _ \<Rightarrow> raise (TypeError ''n_epoch'')))"

text \<open>Modelled from the spec: \<^verbatim>\<open>TorchTrainer.test\<close> (section 4.5, "runs one final
  evaluation on the held-out/test split, returning the loss/F1/accuracy triple"): an
  evaluation reads the tensors and changes nothing.\<close>

definition spec_test ::
  "(trainer \<Rightarrow> 'v list \<Rightarrow> 'b list option \<Rightarrow> rat \<times> rat \<times> rat)
     \<Rightarrow> trainer \<Rightarrow> module \<Rightarrow> 'b list option \<Rightarrow> (rat \<times> rat \<times> rat, 'v) prog"
where
  "spec_test evalf tr m test_dl w = (Inr (evalf (tr\<lparr>t_model := m\<rparr>) (w_heap w) test_dl), w)"

subsection \<open>Observations on a run\<close>

text \<open>The entries into the two training functions, in the order they happened.\<close>

definition training_calls :: "'v world \<Rightarrow> event list" where
  "training_calls w = filter (\<lambda>e. e = CallTrain \<or> e = CallTrainKD) (w_trace w)"

text \<open>\<open>keeps g m\<close>: running \<open>m\<close>, whether it returns or raises, leaves the observation
  \<open>g\<close> of the state as it was.\<close>

definition keeps :: "('v world \<Rightarrow> 'c) \<Rightarrow> ('a, 'v) prog \<Rightarrow> bool" where
  "keeps g m = (\<forall>w. g (snd (m w)) = g w)"

text \<open>The training function that the mode check of lines 270-292 enters from a given
  state, if any: none when the assertion fails or \<^verbatim>\<open>data_config["FP16"]\<close> is missing.\<close>

definition calls_of_dispatch ::
  "('v, 'b) ext \<Rightarrow> py_args \<Rightarrow> config \<times> config \<times> path \<times> config \<times> device \<times> path
     \<Rightarrow> 'v world \<Rightarrow> event list"
where
  "calls_of_dispatch x a = (\<lambda>(mc, tc, ck, dc, dev, ld) w.
     if arg_distill_mode a then
       (if isfile (w_fs w) ck \<and> getitem dc ''FP16'' \<noteq> Inl (KeyError ''FP16'') then [CallTrainKD] else [])
     else (if getitem dc ''FP16'' \<noteq> Inl (KeyError ''FP16'') then [CallTrain] else []))"

subsection \<open>A concrete run\<close>

text \<open>A small instance of everything the script takes from outside: two configurations,
  a student with one tensor, a teacher with two, three batches, a trainer that follows the
  specification, and a file system with a teacher checkpoint whose keys carry the prefix
  \<^verbatim>\<open>head.\<close> in front of the teacher's own names.\<close>

definition demo_data :: config where
  "demo_data = [(''DATA_PATH'', YStr ''/data/taco''), (''DATASET'', YStr ''TACO''),
                (''INIT_LR'', YFloat (1 / 10)), (''EPOCHS'', YInt 2), (''FP16'', YBool True)]"

definition demo_model :: config where
  "demo_model = [(''input_channel'', YInt 3)]"

definition demo_upd :: "trainer \<Rightarrow> int list \<Rightarrow> nat \<Rightarrow> nat \<Rightarrow> int" where
  "demo_upd tr h b a = h ! a + int b"

definition demo_eval :: "trainer \<Rightarrow> int list \<Rightarrow> nat list option \<Rightarrow> rat \<times> rat \<times> rat" where
  "demo_eval tr h dl = (1 / 4, 1 / 2, 3 / 4)"

definition demo_ext :: "(int, nat) ext" where
  "demo_ext =
     \<lparr>read_yaml = (\<lambda>p. if p = ''configs/data/taco.yaml'' then Inr demo_data else Inr demo_model),
      get_config = (\<lambda>p. Inr []),
      cuda_is_available = False,
      strftime = (\<lambda>t. ''2021-11-25_10-00-00''),
      Model = (\<lambda>c. Inr [(''fc.weight'', 0)]),
      build_model = (\<lambda>c. Inr [(''layers.0.weight'', 0), (''head.weight'', 0)]),
      create_dataloader = (\<lambda>c. Inr (Some [1, 2], None, Some [3])),
      get_label_counts = (\<lambda>p. Inr [5, 5]),
      same_shape = (\<lambda>a b. True),
      trainer_train = spec_train_kd demo_upd demo_eval,
      trainer_train_kd = spec_train_kd demo_upd demo_eval,
      trainer_test = spec_test demo_eval\<rparr>"

definition demo_cli :: cli where
  "demo_cli = \<lparr>cli_model = None, cli_teacher_model = None, cli_teacher_checkpoints = None,
               cli_distill_mode = None, cli_data = None, cli_seed = None, cli_run_name = None\<rparr>"

definition demo_cli_kd :: cli where
  "demo_cli_kd = demo_cli\<lparr>cli_distill_mode := Some ''False''\<rparr>"

definition demo_cli_missing :: cli where
  "demo_cli_missing =
     demo_cli\<lparr>cli_distill_mode := Some ''True'', cli_teacher_checkpoints := Some ''exp/missing.pt''\<rparr>"

definition demo_fs :: "int filesys" where
  "demo_fs = [(''exp'', Dir 10), (''exp/swin_teacher'', Dir 10),
              (''exp/swin_teacher/best.pt'',
                 File 20 (Ckpt [(''head.layers.0.weight'', 7), (''head.head.weight'', 8)]))]"

definition demo_world :: "int world" where
  "demo_world = \<lparr>w_fs = demo_fs, w_heap = [], w_clock = 100, w_trace = []\<rparr>"

definition demo_ready :: "int world" where
  "demo_ready =
     \<lparr>w_fs = demo_fs @ [(''exp/latest'', Dir 100)], w_heap = [], w_clock = 100,
      w_trace = [SetSeed 42, WandbInit ''exp'', WandbRunSave, WandbConfigUpdate demo_model,
                 WandbConfigUpdate demo_data]\<rparr>"

definition demo_stale :: "int world" where
  "demo_stale = demo_world\<lparr>w_fs := demo_fs @ [(''exp/latest'', Dir 100)]\<rparr>"

definition demo_env :: "(string \<times> string) list" where
  "demo_env = [(''SM_CHANNEL_TRAIN'', ''/opt/ml/input/data/train''),
               (''SM_MODEL_DIR'', ''/opt/ml/model'')]"

text \<open>The states the concrete run passes through: the log directory prepared, the
  configuration files written, the best checkpoint saved.\<close>

definition demo_state :: "int filesys \<Rightarrow> int list \<Rightarrow> event list \<Rightarrow> int world" where
  "demo_state files heap trace =
     \<lparr>w_fs = demo_fs @ [(''exp/latest'', Dir 100)] @ files, w_heap = heap, w_clock = 100,
      w_trace = trace\<rparr>"

definition demo_cfg_files :: "int filesys" where
  "demo_cfg_files = [(''exp/latest/data.yml'', File 100 (Yaml demo_data)),
                     (''exp/latest/model.yml'', File 100 (Yaml demo_model))]"

definition demo_best :: "int filesys" where
  "demo_best = [(''exp/latest/best.pt'', File 100 (Ckpt [(''fc.weight'', 3)]))]"

definition demo_student :: module where
  "demo_student = \<lparr>m_params = [(''fc.weight'', 0)], m_device = cpu\<rparr>"

definition demo_teacher :: module where
  "demo_teacher = \<lparr>m_params = [(''layers.0.weight'', 1), (''head.weight'', 2)], m_device = cuda0\<rparr>"

definition demo_trainer :: trainer where
  "demo_trainer =
     \<lparr>t_model = demo_student, t_teacher_model = None,
      t_criterion = \<lparr>c_kind = CustomCriterion, c_samples_per_cls = Some [5, 5], c_device = cpu\<rparr>,
      t_optimizer = \<lparr>o_params = [0], o_lr = YFloat (1 / 10), o_momentum = 9 / 10\<rparr>,
      t_scheduler = \<lparr>s_max_lr = YFloat (1 / 10), s_steps_per_epoch = 2, s_epochs = YInt 2,
                     s_pct_start = 5 / 100\<rparr>,
      t_scaler = None, t_device = cpu, t_model_path = ''exp/latest/best.pt'', t_verbose = 1\<rparr>"

definition demo_trainer_kd :: trainer where
  "demo_trainer_kd =
     demo_trainer\<lparr>t_model := to_device demo_student cuda0, t_teacher_model := Some demo_teacher,
       t_criterion := \<lparr>c_kind = CustomCriterion_KD, c_samples_per_cls = Some [5, 5],
                        c_device = cuda0\<rparr>,
       t_scaler := Some GradScaler, t_device := cuda0\<rparr>"

text \<open>The states in which the two trainers of the concrete run are constructed.\<close>

definition demo_plain_ready :: "int world" where
  "demo_plain_ready =
     demo_state demo_cfg_files [0] [CallTrain, Print ''Model save path: exp/latest/best.pt'']"

definition demo_kd_ready :: "int world" where
  "demo_kd_ready =
     demo_state demo_cfg_files [0, 7, 0]
       [CallTrainKD, Print ''Student_Model save path: exp/latest/best.pt'',
        Print ''Teacher_Model load: exp/swin_teacher/best.pt'']"

section \<open>Properties\<close>

subsection \<open>Sequencing and the primitive steps\<close>

lemma and_then_InrE:
  assumes "and_then m f w = (Inr b, w')"
  obtains a w1 where "m w = (Inr a, w1)" and "f a w1 = (Inr b, w')"
  using assms by (auto simp: and_then_def split: prod.splits sum.splits)

lemma lift_Inr_iff: "lift r w = (Inr a, w') \<longleftrightarrow> r = Inr a \<and> w' = w"
  by (auto simp: lift_def)

lemma ret_iff: "ret a w = (r, w') \<longleftrightarrow> r = Inr a \<and> w' = w"
  by (auto simp: ret_def)

subsection \<open>Removing \<^verbatim>\<open>head.\<close> from a key\<close>

lemma srf_none: "\<not> sublist old s \<Longrightarrow> str_replace_from old new s = s"
proof (induction s)
  case Nil then show ?case by simp
next
  case (Cons c cs)
  have a: "\<not> sublist old cs" using Cons.prems by (meson sublist_Cons_right)
  have b: "take (length old) (c # cs) \<noteq> old"
  proof
    assume "take (length old) (c # cs) = old"
    then have "prefix old (c # cs)" by (metis take_is_prefix)
    then show False using Cons.prems by (meson prefix_imp_sublist)
  qed
  show ?case using Cons.IH[OF a] b by simp
qed

lemma rename_key_none: "\<not> sublist ''head.'' n \<Longrightarrow> rename_key n = n"
  by (simp add: rename_key_def str_replace_def srf_none)

lemma srf_prefix:
  "old \<noteq> [] \<Longrightarrow> str_replace_from old new (old @ r) = new @ str_replace_from old new r"
  by (cases old) simp_all

lemma rename_key_prefix: "rename_key (''head.'' @ r) = rename_key r"
  using srf_prefix[of "''head.''" "[]" r]
  by (simp add: rename_key_def str_replace_def del: str_replace_from.simps)

text \<open>No occurrence of \<^verbatim>\<open>head.\<close> overlaps another or starts inside one, so an occurrence in
  the middle of a key is found by the scan whatever comes before it.\<close>

lemma short_list_cases:
  assumes "length a < 5" "a \<noteq> []"
  obtains x where "a = [x]"
  | x y where "a = [x, y]"
  | x y z where "a = [x, y, z]"
  | x y z u where "a = [x, y, z, u]"
proof -
  obtain x xs where a: "a = x # xs" using assms(2) by (cases a) auto
  show ?thesis
  proof (cases xs)
    case Nil then show ?thesis using a that(1) by simp
  next
    case (Cons y ys)
    note c1 = Cons
    show ?thesis
    proof (cases ys)
      case Nil then show ?thesis using a c1 that(2) by simp
    next
      case (Cons z zs)
      note c2 = Cons
      show ?thesis
      proof (cases zs)
        case Nil then show ?thesis using a c1 c2 that(3) by simp
      next
        case (Cons u us)
        then have "us = []" using assms(1) a c1 c2 by simp
        then show ?thesis using a c1 c2 Cons that(4) by simp
      qed
    qed
  qed
qed

lemma head_no_straddle:
  assumes "length a < 5" "a \<noteq> []"
  shows "take 5 (a @ ''head.'' @ b) \<noteq> ''head.''"
  using assms by (rule short_list_cases) auto

lemma head_not_here:
  assumes "a \<noteq> []" "take 5 a \<noteq> ''head.''"
  shows "take 5 (a @ ''head.'' @ b) \<noteq> ''head.''"
proof (cases "length a < 5")
  case True
  then show ?thesis using head_no_straddle assms(1) by blast
next
  case False
  then have "take 5 (a @ ''head.'' @ b) = take 5 a" by simp
  then show ?thesis using assms(2) by simp
qed

lemma srf_Cons_no:
  "take (length old) (c # cs) \<noteq> old
     \<Longrightarrow> str_replace_from old new (c # cs) = c # str_replace_from old new cs"
  by simp

lemma srf_head_append:
  "str_replace_from ''head.'' [] (a @ ''head.'' @ b)
     = str_replace_from ''head.'' [] a @ str_replace_from ''head.'' [] b"
proof (induction "length a" arbitrary: a rule: less_induct)
  case less
  have ne: "''head.'' \<noteq> []" by simp
  have pre: "str_replace_from ''head.'' [] (''head.'' @ r) = str_replace_from ''head.'' [] r" for r
    using srf_prefix[OF ne, of "[]" r] by (simp only: append_Nil)
  show ?case
  proof (cases a)
    case Nil
    show ?thesis
      by (simp only: Nil append_Nil str_replace_from.simps(1) pre)
  next
    case (Cons c cs)
    show ?thesis
    proof (cases "take 5 a = ''head.''")
      case True
      obtain r where ar: "a = ''head.'' @ r"
        using True append_take_drop_id[of 5 a] by metis
      have sm: "length r < length a" by (simp add: ar)
      have 1: "str_replace_from ''head.'' [] (a @ ''head.'' @ b)
                 = str_replace_from ''head.'' [] (r @ ''head.'' @ b)"
        by (simp only: ar append_assoc pre)
      have 2: "str_replace_from ''head.'' [] a = str_replace_from ''head.'' [] r"
        by (simp only: ar pre)
      show ?thesis by (simp only: 1 2 less[OF sm])
    next
      case False
      have ne': "a \<noteq> []" using Cons by simp
      have nh: "take 5 (a @ ''head.'' @ b) \<noteq> ''head.''"
        using head_not_here[OF ne' False] .
      have sm: "length cs < length a" using Cons by simp
      have len5: "length ''head.'' = 5" by simp
      have nh': "take (length ''head.'') (c # (cs @ ''head.'' @ b)) \<noteq> ''head.''"
        using nh unfolding Cons len5 append_Cons .
      have f': "take (length ''head.'') (c # cs) \<noteq> ''head.''"
        using False unfolding Cons len5 .
      have l: "str_replace_from ''head.'' [] (c # (cs @ ''head.'' @ b))
                = c # str_replace_from ''head.'' [] (cs @ ''head.'' @ b)"
        by (rule srf_Cons_no[OF nh'])
      have r: "str_replace_from ''head.'' [] (c # cs) = c # str_replace_from ''head.'' [] cs"
        by (rule srf_Cons_no[OF f'])
      have "str_replace_from ''head.'' [] (a @ ''head.'' @ b)
              = str_replace_from ''head.'' [] (c # (cs @ ''head.'' @ b))"
        by (simp only: Cons append_Cons)
      also have "\<dots> = c # str_replace_from ''head.'' [] (cs @ ''head.'' @ b)"
        by (rule l)
      also have "\<dots> = c # (str_replace_from ''head.'' [] cs @ str_replace_from ''head.'' [] b)"
        by (simp only: less[OF sm])
      also have "\<dots> = str_replace_from ''head.'' [] a @ str_replace_from ''head.'' [] b"
        by (simp only: Cons r append_Cons)
      finally show ?thesis .
    qed
  qed
qed

lemma rename_key_append:
  "rename_key (a @ ''head.'' @ b) = rename_key a @ rename_key b"
proof -
  have ne: "''head.'' \<noteq> []" by simp
  show ?thesis
    unfolding rename_key_def str_replace_def using ne srf_head_append[of a b]
    by (simp only: if_False)
qed

lemma rename_loop_map_of: "map_of (rename_loop items temp) =
   map_of (rev (map (\<lambda>(n, v). (rename_key n, v)) items) @ temp)"
proof (induction items arbitrary: temp)
  case Nil then show ?case by simp
next
  case (Cons p items)
  obtain n v where p: "p = (n, v)" by (cases p)
  show ?case unfolding p by (simp add: Cons.IH update_conv' map_add_def fun_eq_iff split: option.splits)
qed

subsection \<open>What a step that returns has done\<close>

lemma emit_iff: "emit e w = (r, w') \<longleftrightarrow> r = Inr () \<and> w' = w\<lparr>w_trace := w_trace w @ [e]\<rparr>"
  by (auto simp: emit_def)

lemma fs_read_iff: "fs_read f w = (r, w') \<longleftrightarrow> r = f (w_fs w) \<and> w' = w"
  by (auto simp: fs_read_def)

lemma fs_op_InrD:
  "fs_op f w = (Inr u, w') \<Longrightarrow> \<exists>fs'. f (w_fs w) = Inr fs' \<and> w' = w\<lparr>w_fs := fs'\<rparr>"
  by (auto simp: fs_op_def split: sum.splits)

lemma new_module_iff:
  "new_module init w = (r, w') \<longleftrightarrow>
     r = Inr \<lparr>m_params = zip (map fst init) [length (w_heap w) ..< length (w_heap w) + length init],
             m_device = cpu\<rparr> \<and> w' = w\<lparr>w_heap := w_heap w @ map snd init\<rparr>"
  by (auto simp: new_module_def)

lemma load_state_dict_heap:
  "load_state_dict same m sd strict w = (r, w') \<Longrightarrow>
     w' = w\<lparr>w_heap := copy_params same sd (w_heap w) (m_params m)\<rparr>"
  by (auto simp: load_state_dict_def Let_def split: if_splits)

lemma train_setup_result:
  assumes "train_setup x mc dc ld fp16 dev w = (Inr (tr, m, mp, dls), w')"
  shows "t_scaler tr = make_scaler fp16 dev \<and> mp = path_join ld ''best.pt''
         \<and> t_model_path tr = mp \<and> t_model tr = m \<and> t_teacher_model tr = None
         \<and> o_params (t_optimizer tr) = parameters m"
  using assms unfolding train_setup_def Let_def
  by (auto elim!: and_then_InrE simp: lift_Inr_iff ret_iff make_optimizer_def split: sum.splits)

lemma train_kd_setup_result:
  assumes "train_kd_setup x sc tc ck dc ld fp16 dev w = (Inr (tr, s, t, mp, dls), w')"
  shows "t_scaler tr = make_scaler fp16 dev \<and> mp = path_join ld ''best.pt''
         \<and> t_model_path tr = mp \<and> t_model tr = s \<and> t_teacher_model tr = Some t
         \<and> o_params (t_optimizer tr) = parameters s"
  using assms unfolding train_kd_setup_def Let_def
  by (auto elim!: and_then_InrE simp: lift_Inr_iff ret_iff make_optimizer_def split: sum.splits)

subsection \<open>Entries into the training functions\<close>

text \<open>Only the first statement of \<^verbatim>\<open>train\<close> and of \<^verbatim>\<open>train_kd\<close> records an entry; every
  other step, returning or raising, leaves the record of entries as it was.\<close>

lemma keepsD: "keeps g m \<Longrightarrow> m w = (r, w') \<Longrightarrow> g w' = g w"
  by (auto simp: keeps_def dest: spec[of _ w])

lemma keeps_and_then: "keeps g m \<Longrightarrow> (\<And>a. keeps g (f a)) \<Longrightarrow> keeps g (and_then m f)"
  unfolding keeps_def and_then_def
  by (auto split: prod.splits sum.splits) (metis snd_conv)+

lemma keeps_lift: "keeps g (lift r)" by (simp add: keeps_def lift_def)
lemma keeps_ret: "keeps g (ret a)" by (simp add: keeps_def ret_def)
lemma keeps_raise: "keeps g (raise e)" by (simp add: keeps_def raise_def)
lemma keeps_fs_read: "keeps g (fs_read f)" by (simp add: keeps_def fs_read_def)

lemma keeps_case_prod: "(\<And>a b. keeps g (f a b)) \<Longrightarrow> keeps g (case_prod f p)"
  by (cases p) simp

lemma calls_emit: "e \<noteq> CallTrain \<Longrightarrow> e \<noteq> CallTrainKD \<Longrightarrow> keeps training_calls (emit e)"
  by (simp add: keeps_def emit_def training_calls_def)

lemma calls_fs_op: "keeps training_calls (\<lambda>w. fs_op (F w) w)"
  by (auto simp: keeps_def fs_op_def training_calls_def split: sum.splits)

lemma calls_call_ext: "keeps training_calls (call_ext f)"
  by (auto simp: keeps_def call_ext_def training_calls_def split: prod.splits)

lemma calls_new_module: "keeps training_calls (new_module init)"
  by (simp add: keeps_def new_module_def training_calls_def)

lemma calls_load_state_dict: "keeps training_calls (load_state_dict same m sd strict)"
  by (simp add: keeps_def load_state_dict_def Let_def training_calls_def)

lemmas calls_intros = keeps_and_then keeps_lift keeps_ret keeps_raise keeps_fs_read
  keeps_case_prod calls_emit calls_fs_op calls_call_ext calls_new_module calls_load_state_dict

lemma calls_dump_configs: "keeps training_calls (dump_configs ld dc mc)"
  unfolding dump_configs_def by (intro calls_intros)

lemma calls_final_test: "keeps training_calls (final_test x tr m mp v t)"
  unfolding final_test_def by (intro calls_intros; simp)

lemma calls_train_setup: "keeps training_calls (train_setup x mc dc ld fp16 dev)"
  unfolding train_setup_def Let_def by (intro calls_intros calls_dump_configs; simp)

lemma calls_train_run: "keeps training_calls (train_run x dc ctx)"
  unfolding train_run_def by (intro calls_intros calls_final_test; simp)

lemma calls_train_kd_setup: "keeps training_calls (train_kd_setup x sc tc ck dc ld fp16 dev)"
  unfolding train_kd_setup_def Let_def by (intro calls_intros calls_dump_configs; simp)

lemma calls_train_kd_run: "keeps training_calls (train_kd_run x dc ctx)"
  unfolding train_kd_run_def by (intro calls_intros calls_final_test; simp)

lemma calls_rotate: "keeps training_calls (rotate_log_dir x ld)"
proof -
  have "keeps training_calls (and_then (fs_read (\<lambda>fs. getmtime fs (ld @ ''/best.pt''))) (\<lambda>modified.
          (\<lambda>w. fs_op (os_rename ld (dirname ld @ ''/'' @ strftime x modified)) w)))"
    by (intro calls_intros)
  then show ?thesis
    unfolding keeps_def rotate_log_dir_def Let_def by (auto simp: ret_def)
qed

lemma calls_load_settings: "keeps training_calls (load_settings x env a)"
  unfolding load_settings_def Let_def by (intro calls_intros; simp)

lemma calls_prepare_run: "keeps training_calls (prepare_run x a mc dc ld)"
  unfolding prepare_run_def by (intro calls_intros calls_rotate; simp)

lemma calls_train:
  "training_calls (snd (train x mc dc ld fp16 dev w)) = training_calls w @ [CallTrain]"
proof -
  let ?w1 = "w\<lparr>w_trace := w_trace w @ [CallTrain]\<rparr>"
  have k: "keeps training_calls (and_then (train_setup x mc dc ld fp16 dev) (train_run x dc))"
    by (intro keeps_and_then calls_train_setup calls_train_run)
  have "train x mc dc ld fp16 dev w = and_then (train_setup x mc dc ld fp16 dev) (train_run x dc) ?w1"
    by (simp add: train_def and_then_def emit_def)
  then show ?thesis using k by (simp add: keeps_def training_calls_def)
qed

lemma calls_train_kd:
  "training_calls (snd (train_kd x sc tc ck dc ld fp16 dev w)) = training_calls w @ [CallTrainKD]"
proof -
  let ?w1 = "w\<lparr>w_trace := w_trace w @ [CallTrainKD]\<rparr>"
  have k: "keeps training_calls (and_then (train_kd_setup x sc tc ck dc ld fp16 dev) (train_kd_run x dc))"
    by (intro keeps_and_then calls_train_kd_setup calls_train_kd_run)
  have "train_kd x sc tc ck dc ld fp16 dev w =
        and_then (train_kd_setup x sc tc ck dc ld fp16 dev) (train_kd_run x dc) ?w1"
    by (simp add: train_kd_def and_then_def emit_def)
  then show ?thesis using k by (simp add: keeps_def training_calls_def)
qed

subsection \<open>The mode check\<close>

lemma getitem_cases: "getitem d k = Inl (KeyError k) \<or> (\<exists>v. getitem d k = Inr v)"
  by (simp add: getitem_def split: option.splits)

lemma dispatch_calls:
  "training_calls (snd (dispatch x a s w)) = training_calls w @ calls_of_dispatch x a s w"
proof -
  obtain mc tc ck dc dev ld where s: "s = (mc, tc, ck, dc, dev, ld)" by (cases s) auto
  show ?thesis
    using getitem_cases[of dc "''FP16''"]
    unfolding s dispatch_def calls_of_dispatch_def
    by (auto simp: and_then_def lift_def raise_def calls_train calls_train_kd)
qed

lemma main_unfold:
  "main x env c w0 =
     (case load_settings x env (parse_args c) w0 of
        (Inl e, w1) \<Rightarrow> (Inl e, w1)
      | (Inr s, w1) \<Rightarrow>
         (case prepare_run x (parse_args c) (fst s) (fst (snd (snd (snd s)))) (snd (snd (snd (snd (snd s))))) w1 of
            (Inl e, w2) \<Rightarrow> (Inl e, w2)
          | (Inr u, w2) \<Rightarrow> dispatch x (parse_args c) s w2))"
  unfolding main_def Let_def and_then_def
  by (auto split: prod.splits sum.splits)

lemma main_calls_cases:
  "training_calls (snd (main x env c w0)) = training_calls w0
   \<or> (\<exists>s w1 w2. load_settings x env (parse_args c) w0 = (Inr s, w1)
        \<and> prepare_run x (parse_args c) (fst s) (fst (snd (snd (snd s)))) (snd (snd (snd (snd (snd s))))) w1 = (Inr (), w2)
        \<and> training_calls w2 = training_calls w0
        \<and> main x env c w0 = dispatch x (parse_args c) s w2)"
proof (cases "load_settings x env (parse_args c) w0")
  case (Pair r w1)
  note ls = Pair
  have k1: "training_calls w1 = training_calls w0"
    using keepsD[OF calls_load_settings ls] .
  show ?thesis
  proof (cases r)
    case (Inl e)
    then show ?thesis using ls k1 by (simp add: main_unfold)
  next
    case (Inr s)
    show ?thesis
    proof (cases "prepare_run x (parse_args c) (fst s) (fst (snd (snd (snd s)))) (snd (snd (snd (snd (snd s))))) w1")
      case (Pair r2 w2)
      have k2: "training_calls w2 = training_calls w1"
        using keepsD[OF calls_prepare_run Pair] .
      show ?thesis
      proof (cases r2)
        case (Inl e)
        then show ?thesis using ls Inr Pair k1 k2 by (simp add: main_unfold)
      next
        case (Inr u)
        then show ?thesis using ls \<open>r = Inr s\<close> Pair k1 k2 by (simp add: main_unfold)
      qed
    qed
  qed
qed

lemma calls_of_dispatch_cases:
  "calls_of_dispatch x a s w = [] \<or> (calls_of_dispatch x a s w = [CallTrainKD] \<and> arg_distill_mode a)
    \<or> (calls_of_dispatch x a s w = [CallTrain] \<and> \<not> arg_distill_mode a)"
  by (cases s) (auto simp: calls_of_dispatch_def)

lemma main_calls_at_most_one:
  assumes "training_calls w0 = []"
  shows "training_calls (snd (main x env c w0)) = []
       \<or> (training_calls (snd (main x env c w0)) = [CallTrainKD] \<and> arg_distill_mode (parse_args c))
       \<or> (training_calls (snd (main x env c w0)) = [CallTrain] \<and> \<not> arg_distill_mode (parse_args c))"
  using main_calls_cases[of x env c w0] assms
proof (elim disjE exE conjE)
  assume "training_calls (snd (main x env c w0)) = training_calls w0"
  then show ?thesis using assms by simp
next
  fix s w1 w2
  assume m: "main x env c w0 = dispatch x (parse_args c) s w2"
    and t: "training_calls w2 = training_calls w0"
  have "training_calls (snd (main x env c w0)) = calls_of_dispatch x (parse_args c) s w2"
    using m t assms by (simp add: dispatch_calls)
  then show ?thesis using calls_of_dispatch_cases[of x "parse_args c" s w2] by auto
qed

subsection \<open>Tensors the optimizer was not constructed over\<close>

text \<open>A step of the specified trainer, and a \<^verbatim>\<open>load_state_dict\<close> into another module, leave
  a tensor outside their own parameters as it was.\<close>

lemma copy_params_frame:
  "a \<notin> snd ` set ps \<Longrightarrow> copy_params same sd h ps ! a = h ! a"
proof (induction ps arbitrary: h)
  case Nil then show ?case by simp
next
  case (Cons p ps)
  obtain n b where p: "p = (n, b)" by (cases p)
  have ne: "b \<noteq> a" and rest: "a \<notin> snd ` set ps" using Cons.prems p by auto
  show ?case unfolding p
    by (simp add: Cons.IH[OF rest] ne split: option.splits)
qed

lemma foldl_update_frame:
  "a \<notin> set as \<Longrightarrow> foldl (\<lambda>h' a'. h'[a' := F a']) h as ! a = h ! a"
  by (induction as arbitrary: h) auto

lemma optimizer_step_frame:
  "a \<notin> set (o_params (t_optimizer tr)) \<Longrightarrow> optimizer_step upd tr b h ! a = h ! a"
  unfolding optimizer_step_def by (rule foldl_update_frame)

lemma train_batches_frame:
  "a \<notin> set (o_params (t_optimizer tr)) \<Longrightarrow> train_batches upd tr bs h ! a = h ! a"
  by (induction bs arbitrary: h) (simp_all add: optimizer_step_frame)

lemma spec_epochs_frame:
  assumes "a \<notin> set (o_params (t_optimizer tr))"
  shows "w_heap (snd (spec_epochs upd evalf tr bs val n best w)) ! a = w_heap w ! a"
proof (induction n arbitrary: best w)
  case 0 then show ?case by simp
next
  case (Suc n)
  show ?case
    by (simp add: Let_def Suc.IH train_batches_frame[OF assms] split: sum.splits)
qed

lemma heap_spec_train_kd:
  assumes "a \<notin> set (o_params (t_optimizer tr))"
  shows "keeps (\<lambda>w. w_heap w ! a) (spec_train_kd upd evalf tr tdl n vdl)"
proof -
  have e: "\<And>bs k. keeps (\<lambda>w. w_heap w ! a) (spec_epochs upd evalf tr bs vdl k None)"
    unfolding keeps_def using spec_epochs_frame[OF assms] by blast
  show ?thesis unfolding spec_train_kd_def
    by (auto split: option.splits yaml.splits intro!: keeps_and_then keeps_ret keeps_raise e)
qed

lemma heap_spec_test: "keeps (\<lambda>w. w_heap w ! a) (spec_test evalf tr m dl)"
  by (simp add: keeps_def spec_test_def)

lemma heap_call_ext: "keeps (\<lambda>w. w_heap w ! a) f \<Longrightarrow> keeps (\<lambda>w. w_heap w ! a) (call_ext f)"
  by (auto simp: keeps_def call_ext_def split: prod.splits) (metis snd_conv)

lemma heap_emit: "keeps (\<lambda>w. w_heap w ! a) (emit e)"
  by (simp add: keeps_def emit_def)

lemma heap_load_state_dict:
  "a \<notin> set (parameters m) \<Longrightarrow> keeps (\<lambda>w. w_heap w ! a) (load_state_dict same m sd strict)"
  by (simp add: keeps_def load_state_dict_def Let_def parameters_def copy_params_frame)

lemma heap_final_test:
  assumes "a \<notin> set (parameters m)" "trainer_test x = spec_test evalf"
  shows "keeps (\<lambda>w. w_heap w ! a) (final_test x tr m mp v t)"
  unfolding final_test_def assms(2)
  by (intro keeps_and_then keeps_fs_read heap_load_state_dict[OF assms(1)] heap_emit
        heap_call_ext heap_spec_test keeps_case_prod keeps_ret)

lemma heap_train_kd_run:
  assumes "a \<notin> set (parameters s)" "o_params (t_optimizer tr) = parameters s"
    "trainer_train_kd x = spec_train_kd upd evalf" "trainer_test x = spec_test evalf"
  shows "keeps (\<lambda>w. w_heap w ! a) (train_kd_run x dc (tr, s, t, mp, tdl, vdl, tedl))"
proof -
  have a': "a \<notin> set (o_params (t_optimizer tr))" using assms by simp
  show ?thesis
    unfolding train_kd_run_def assms(3) prod.case
    by (intro keeps_and_then keeps_lift heap_emit heap_call_ext heap_spec_train_kd[OF a']
          keeps_case_prod heap_final_test[OF assms(1) assms(4)])
qed

lemma parameters_new:
  "parameters \<lparr>m_params = zip (map fst init) [n ..< n + length init], m_device = d\<rparr> = [n ..< n + length init]"
  by (simp add: parameters_def)

lemma parameters_to_device: "parameters (to_device m d) = parameters m"
  by (simp add: parameters_def to_device_def)

lemma dump_configs_heap: "dump_configs ld dc mc w = (r, w') \<Longrightarrow> w_heap w' = w_heap w"
  by (auto simp: dump_configs_def and_then_def fs_op_def split: sum.splits prod.splits)

lemma train_kd_setup_addrs:
  assumes "train_kd_setup x sc tc ck dc ld fp16 dev w = (Inr (tr, s, t, mp, dls), w')"
  shows "set (parameters s) \<inter> set (parameters t) = {}"
  using assms unfolding train_kd_setup_def Let_def
  by (auto elim!: and_then_InrE
      simp: lift_Inr_iff ret_iff new_module_iff emit_iff fs_read_iff parameters_to_device
            parameters_new
      dest!: dump_configs_heap load_state_dict_heap split: sum.splits)

subsection \<open>The log directory and the settings\<close>

lemma isdir_append:
  "isdir (fs @ [(q, Dir t)]) p = (isdir fs p \<or> (map_of fs p = None \<and> p = q))"
  by (auto simp: isdir_def map_add_def split: option.splits node.splits)

lemma isfile_append_dir:
  "isfile (fs @ [(q, Dir t)]) p = isfile fs p"
  by (auto simp: isfile_def map_add_def split: option.splits node.splits)

lemma mkdir_missing_isdir_keep:
  "isdir fs p \<Longrightarrow> isdir (mkdir_missing now fs qs) p"
  by (induction qs arbitrary: fs) (auto simp: isdir_append)

lemma mkdir_missing_isdir:
  "p \<in> set qs \<Longrightarrow> \<not> isfile fs p \<Longrightarrow> isdir (mkdir_missing now fs qs) p"
proof (induction qs arbitrary: fs)
  case Nil then show ?case by simp
next
  case (Cons q qs)
  show ?case
  proof (cases "p = q")
    case True
    have "isdir (if map_of fs q = None then fs @ [(q, Dir now)] else fs) q"
      using Cons.prems(2) True
      by (auto simp: isdir_append) (auto simp: isdir_def isfile_def split: option.splits node.splits)
    then show ?thesis using True by (simp add: mkdir_missing_isdir_keep)
  next
    case False
    then have "p \<in> set qs" using Cons.prems by simp
    moreover have "\<not> isfile (if map_of fs q = None then fs @ [(q, Dir now)] else fs) p"
      using Cons.prems(2) by (simp add: isfile_append_dir)
    ultimately show ?thesis using Cons.IH by simp
  qed
qed

lemma makedirs_isdir: "makedirs now p fs = Inr fs' \<Longrightarrow> isdir fs' p"
  unfolding makedirs_def
  by (auto split: if_splits simp: filter_empty_conv intro!: mkdir_missing_isdir)

lemma prepare_run_isdir:
  assumes "prepare_run x a mc dc ld w = (Inr u, w')"
  shows "isdir (w_fs w') ld"
  using assms unfolding prepare_run_def
  by (auto elim!: and_then_InrE simp: emit_iff dest!: fs_op_InrD makedirs_isdir)

lemma load_settings_result:
  assumes "read_yaml x (arg_model a) = Inr mc" "get_config x (arg_teacher_model a) = Inr tc"
    "read_yaml x (arg_data a) = Inr dc0" "map_of dc0 ''DATA_PATH'' = Some v0"
  shows "load_settings x env a w =
     (Inr (mc, tc, arg_teacher_checkpoints a,
           AList.update ''DATA_PATH'' (case map_of env ''SM_CHANNEL_TRAIN'' of None \<Rightarrow> v0 | Some s \<Rightarrow> YStr s) dc0,
           (if cuda_is_available x then cuda0 else cpu),
           (case map_of env ''SM_MODEL_DIR'' of None \<Rightarrow> ''exp/latest'' | Some s \<Rightarrow> s)),
      w\<lparr>w_trace := w_trace w @ [SetSeed (arg_seed a)]\<rparr>)"
  using assms
  by (simp add: load_settings_def and_then_def lift_def emit_def ret_def getitem_def Let_def
       environ_get_def path_join_def split: option.splits)

subsection \<open>Loading checkpoints and the final test\<close>

lemma load_state_dict_permissive:
  assumes "\<And>n a v. (n, a) \<in> set (m_params t) \<Longrightarrow> map_of sd n = Some v \<Longrightarrow> same (w_heap w ! a) v"
  shows "load_state_dict same t sd False w =
          (Inr (), w\<lparr>w_heap := copy_params same sd (w_heap w) (m_params t)\<rparr>)"
proof -
  have "filter (\<lambda>(n, a). case map_of sd n of Some v \<Rightarrow> \<not> same (w_heap w ! a) v | None \<Rightarrow> False)
          (m_params t) = []"
    using assms by (auto simp: filter_empty_conv split: option.splits)
  then show ?thesis by (simp add: load_state_dict_def Let_def)
qed

lemma final_test_ok:
  assumes "torch_load mp (w_fs w2) = Inr sd"
    and "fst (load_state_dict (same_shape x) m sd True w2) = Inr ()"
    and "call_ext (trainer_test x tr m (pick_val vdl tedl))
           (w2\<lparr>w_heap := copy_params (same_shape x) sd (w_heap w2) (m_params m),
               w_trace := w_trace w2 @ [TrainerTest]\<rparr>) = (Inr (loss, f1, acc), w4)"
  shows "final_test x tr m mp vdl tedl w2 = (Inr (loss, f1, acc), w4)"
proof -
  obtain r w3 where l: "load_state_dict (same_shape x) m sd True w2 = (r, w3)" by fastforce
  have r: "r = Inr ()" using assms(2) l by simp
  have w3: "w3 = w2\<lparr>w_heap := copy_params (same_shape x) sd (w_heap w2) (m_params m)\<rparr>"
    using load_state_dict_heap[OF l] .
  show ?thesis
    using assms(1,3) l r w3
    by (simp add: final_test_def and_then_def fs_read_def emit_def ret_def)
qed

lemma call_ext_trace: "call_ext f w = (r, w') \<Longrightarrow> w_trace w' = w_trace w"
  by (auto simp: call_ext_def split: prod.splits)

lemma train_unfold:
  "train x mc dc ld fp16 dev w =
     and_then (train_setup x mc dc ld fp16 dev) (train_run x dc)
       (w\<lparr>w_trace := w_trace w @ [CallTrain]\<rparr>)"
  by (simp add: train_def and_then_def emit_def)

lemma train_kd_unfold:
  "train_kd x sc tc ck dc ld fp16 dev w =
     and_then (train_kd_setup x sc tc ck dc ld fp16 dev) (train_kd_run x dc)
       (w\<lparr>w_trace := w_trace w @ [CallTrainKD]\<rparr>)"
  by (simp add: train_kd_def and_then_def emit_def)

lemma train_completes:
  assumes stp: "train_setup x mc dc ld fp16 dev (w\<lparr>w_trace := w_trace w @ [CallTrain]\<rparr>)
                   = (Inr (tr, m, mp, tdl, vdl, tedl), w1)"
    and ep: "getitem dc ''EPOCHS'' = Inr n"
    and loop: "call_ext (trainer_train x tr tdl n (pick_val vdl tedl))
                 (w1\<lparr>w_trace := w_trace w1 @ [TrainerTrain]\<rparr>) = (Inr best, w2)"
    and ckpt: "torch_load (path_join ld ''best.pt'') (w_fs w2) = Inr sd"
    and strict: "fst (load_state_dict (same_shape x) m sd True w2) = Inr ()"
    and test: "call_ext (trainer_test x tr m (pick_val vdl tedl))
                 (w2\<lparr>w_heap := copy_params (same_shape x) sd (w_heap w2) (m_params m),
                     w_trace := w_trace w2 @ [TrainerTest]\<rparr>) = (Inr (loss, f1, acc), w4)"
  shows "train x mc dc ld fp16 dev w = (Inr (loss, f1, acc), w4)
       \<and> w_trace w4 = w_trace w1 @ [TrainerTrain, TrainerTest]"
proof -
  have mp: "mp = path_join ld ''best.pt''"
    using train_setup_result[OF stp] by simp
  have ft: "final_test x tr m mp vdl tedl w2 = (Inr (loss, f1, acc), w4)"
    using final_test_ok[OF ckpt[folded mp] strict test] .
  have run: "train_run x dc (tr, m, mp, tdl, vdl, tedl) w1 = (Inr (loss, f1, acc), w4)"
    using ep loop ft
    by (cases best) (simp add: train_run_def and_then_def lift_def emit_def)
  have t: "w_trace w4 = w_trace w1 @ [TrainerTrain, TrainerTest]"
    using call_ext_trace[OF loop] call_ext_trace[OF test] by simp
  show ?thesis using stp run t by (simp add: train_unfold and_then_def)
qed

lemma train_kd_completes:
  assumes stp: "train_kd_setup x sc tc ck dc ld fp16 dev (w\<lparr>w_trace := w_trace w @ [CallTrainKD]\<rparr>)
                   = (Inr (tr, s, t, mp, tdl, vdl, tedl), w1)"
    and ep: "getitem dc ''EPOCHS'' = Inr n"
    and loop: "call_ext (trainer_train_kd x tr tdl n (pick_val vdl tedl))
                 (w1\<lparr>w_trace := w_trace w1 @ [TrainerTrainKD]\<rparr>) = (Inr best, w2)"
    and ckpt: "torch_load (path_join ld ''best.pt'') (w_fs w2) = Inr sd"
    and strict: "fst (load_state_dict (same_shape x) s sd True w2) = Inr ()"
    and test: "call_ext (trainer_test x tr s (pick_val vdl tedl))
                 (w2\<lparr>w_heap := copy_params (same_shape x) sd (w_heap w2) (m_params s),
                     w_trace := w_trace w2 @ [TrainerTest]\<rparr>) = (Inr (loss, f1, acc), w4)"
  shows "train_kd x sc tc ck dc ld fp16 dev w = (Inr (loss, f1, acc), w4)
       \<and> w_trace w4 = w_trace w1 @ [TrainerTrainKD, TrainerTest]"
proof -
  have mp: "mp = path_join ld ''best.pt''"
    using train_kd_setup_result[OF stp] by simp
  have ft: "final_test x tr s mp vdl tedl w2 = (Inr (loss, f1, acc), w4)"
    using final_test_ok[OF ckpt[folded mp] strict test] .
  have run: "train_kd_run x dc (tr, s, t, mp, tdl, vdl, tedl) w1 = (Inr (loss, f1, acc), w4)"
    using ep loop ft
    by (cases best) (simp add: train_kd_run_def and_then_def lift_def emit_def)
  have t: "w_trace w4 = w_trace w1 @ [TrainerTrainKD, TrainerTest]"
    using call_ext_trace[OF loop] call_ext_trace[OF test] by simp
  show ?thesis using stp run t by (simp add: train_kd_unfold and_then_def)
qed

lemma copy_params_absent:
  "(\<And>n. (n, a) \<in> set ps \<Longrightarrow> map_of sd n = None) \<Longrightarrow> copy_params same sd h ps ! a = h ! a"
proof (induction ps arbitrary: h)
  case Nil then show ?case by simp
next
  case (Cons p ps)
  obtain n b where p: "p = (n, b)" by (cases p)
  have rest: "\<And>n. (n, a) \<in> set ps \<Longrightarrow> map_of sd n = None" using Cons.prems by auto
  have here: "b = a \<Longrightarrow> map_of sd n = None" using Cons.prems p by auto
  show ?case unfolding p
    using here by (cases "b = a") (auto simp: Cons.IH[OF rest] split: option.splits)
qed

section \<open>The claims\<close>

subsection \<open>C1: a missing teacher checkpoint\<close>

text \<open>C1 (amended). If the distillation-mode flag is set and, when the mode check is
  reached, no file exists at the teacher checkpoint path, the run ends with the assertion
  error of line 273 and neither training function has been entered. The log directory
  exists by then: line 261 creates it before the check.\<close>

theorem C1_amended:
  assumes "arg_distill_mode (parse_args c)"
    and "load_settings x env (parse_args c) w0 = (Inr (mc, tc, ck, dc, dev, ld), w1)"
    and "prepare_run x (parse_args c) mc dc ld w1 = (Inr (), w2)"
    and "\<not> isfile (w_fs w2) ck"
  shows "main x env c w0 = (Inl (AssertionError (''No ckpt file found at '' @ ck)), w2)
       \<and> training_calls w2 = training_calls w0 \<and> isdir (w_fs w2) ld"
proof -
  have 1: "main x env c w0 = (Inl (AssertionError (''No ckpt file found at '' @ ck)), w2)"
    using assms by (simp add: main_unfold dispatch_def raise_def)
  have 2: "training_calls w1 = training_calls w0"
    using keepsD[OF calls_load_settings assms(2)] .
  have 3: "training_calls w2 = training_calls w1"
    using keepsD[OF calls_prepare_run assms(3)] .
  show ?thesis using 1 2 3 prepare_run_isdir[OF assms(3)] by simp
qed

text \<open>C1 as stated fails: with the flag set and no file at \<^verbatim>\<open>exp/missing.pt\<close>, the run
  ends with the assertion error, and \<^verbatim>\<open>exp/latest\<close>, absent before, is a directory
  afterwards.\<close>

theorem C1_counterexample:
  "arg_distill_mode (parse_args demo_cli_missing)
   \<and> \<not> isfile (w_fs demo_world) ''exp/missing.pt''
   \<and> \<not> path_exists (w_fs demo_world) ''exp/latest''
   \<and> fst (main demo_ext [] demo_cli_missing demo_world)
       = Inl (AssertionError ''No ckpt file found at exp/missing.pt'')
   \<and> isdir (w_fs (snd (main demo_ext [] demo_cli_missing demo_world))) ''exp/latest''"
  by code_simp

text \<open>C1 (amended) on the same run.\<close>

theorem C1_witness:
  "main demo_ext [] demo_cli_missing demo_world
     = (Inl (AssertionError ''No ckpt file found at exp/missing.pt''), demo_ready)
   \<and> training_calls demo_ready = training_calls demo_world
   \<and> isdir (w_fs demo_ready) ''exp/latest''"
proof -
  have h1: "arg_distill_mode (parse_args demo_cli_missing)" by code_simp
  have h2: "load_settings demo_ext [] (parse_args demo_cli_missing) demo_world
            = (Inr (demo_model, [], ''exp/missing.pt'', demo_data, cpu, ''exp/latest''),
               demo_world\<lparr>w_trace := [SetSeed 42]\<rparr>)" by code_simp
  have h3: "prepare_run demo_ext (parse_args demo_cli_missing) demo_model demo_data ''exp/latest''
              (demo_world\<lparr>w_trace := [SetSeed 42]\<rparr>) = (Inr (), demo_ready)" by code_simp
  have h4: "\<not> isfile (w_fs demo_ready) ''exp/missing.pt''" by code_simp
  show ?thesis using C1_amended[OF h1 h2 h3 h4] by simp
qed

subsection \<open>C2: the keys of the teacher checkpoint\<close>

text \<open>C2 (amended). For every key of the raw saved mapping, every occurrence of
  \<^verbatim>\<open>head.\<close> is removed from the key, scanning from the left, wherever it stands; the
  value is loaded under the resulting key, and where two keys give the same result the
  later value stays. A leading \<^verbatim>\<open>head.\<close> is removed, and the rest of the key is treated
  in the same way; a key in which \<^verbatim>\<open>head.\<close> does not occur is unchanged, and a key that
  has it in front only loses exactly that prefix. An occurrence inside a key is removed
  like a leading one: what stands before it and what stands behind it are renamed on
  their own and joined, and a part before it that is free of \<^verbatim>\<open>head.\<close> stays as it
  is.\<close>

theorem C2_amended:
  "map_of (rename_loop sd []) = map_of (rev (map (\<lambda>(n, v). (rename_key n, v)) sd))
   \<and> rename_key (''head.'' @ r) = rename_key r
   \<and> (\<not> sublist ''head.'' n \<longrightarrow> rename_key n = n)
   \<and> (\<not> sublist ''head.'' r \<longrightarrow> rename_key (''head.'' @ r) = r)
   \<and> rename_key (a @ ''head.'' @ b) = rename_key a @ rename_key b
   \<and> (\<not> sublist ''head.'' a \<longrightarrow> rename_key (a @ ''head.'' @ b) = a @ rename_key b)"
proof -
  have 1: "map_of (rename_loop sd []) = map_of (rev (map (\<lambda>(n, v). (rename_key n, v)) sd))"
    by (simp add: rename_loop_map_of)
  have 2: "\<not> sublist ''head.'' r \<longrightarrow> rename_key (''head.'' @ r) = r"
    using rename_key_prefix[of r] rename_key_none[of r] by metis
  have 3: "rename_key (a @ ''head.'' @ b) = rename_key a @ rename_key b"
    by (rule rename_key_append)
  have 4: "\<not> sublist ''head.'' a \<longrightarrow> rename_key (a @ ''head.'' @ b) = a @ rename_key b"
    using 3 rename_key_none[of a] by metis
  show ?thesis using 1 2 3 4 rename_key_prefix[of r] rename_key_none[of n] by blast
qed

text \<open>C2 as stated fails: the code removes \<^verbatim>\<open>head.\<close> inside a key as well, so a key
  that carries the prefix in front of the teacher's own \<^verbatim>\<open>head.weight\<close> ends as
  \<^verbatim>\<open>weight\<close>, where stripping the leading prefix only gives \<^verbatim>\<open>head.weight\<close>.\<close>

theorem C2_counterexample:
  "rename_key ''head.head.weight'' = ''weight''
   \<and> strip_prefix_spec ''head.head.weight'' = ''head.weight''
   \<and> rename_key ''layers.0.head.weight'' = ''layers.0.weight''
   \<and> strip_prefix_spec ''layers.0.head.weight'' = ''layers.0.head.weight''
   \<and> rename_loop [(''head.head.weight'', 8 :: int)] [] = [(''weight'', 8)]"
  by code_simp

text \<open>C2 (amended) on the keys of the concrete checkpoint, on a key without the
  prefix, and on a key with \<^verbatim>\<open>head.\<close> in the middle.\<close>

theorem C2_witness:
  "map_of (rename_loop [(''head.layers.0.weight'', 7 :: int), (''head.head.weight'', 8)] [])
     = map_of [(''weight'', 8), (''layers.0.weight'', 7)]
   \<and> rename_key ''norm.bias'' = ''norm.bias''
   \<and> rename_key ''head.norm.bias'' = ''norm.bias''
   \<and> rename_key ''layers.0.head.weight'' = ''layers.0.weight''"
proof -
  have h: "\<not> sublist ''head.'' ''norm.bias''" by code_simp
  have h': "\<not> sublist ''head.'' ''layers.0.''" by code_simp
  have hw: "\<not> sublist ''head.'' ''weight''" by code_simp
  have k: "map (\<lambda>(n, v). (rename_key n, v))
             [(''head.layers.0.weight'', 7 :: int), (''head.head.weight'', 8)]
           = [(''layers.0.weight'', 7), (''weight'', 8)]" by code_simp
  have a: "''head.'' @ ''norm.bias'' = ''head.norm.bias''" by simp
  have m: "''layers.0.'' @ ''head.'' @ ''weight'' = ''layers.0.head.weight''" by simp
  have w: "rename_key ''weight'' = ''weight''"
    using C2_amended[where n = "''weight''"] hw by blast
  have mid: "rename_key (''layers.0.'' @ ''head.'' @ ''weight'') = ''layers.0.'' @ rename_key ''weight''"
    using C2_amended[where a = "''layers.0.''" and b = "''weight''"] h' by blast
  have mid': "rename_key ''layers.0.head.weight'' = ''layers.0.weight''"
    using mid w m by simp
  have rest: "map_of (rename_loop [(''head.layers.0.weight'', 7 :: int), (''head.head.weight'', 8)] [])
     = map_of [(''weight'', 8), (''layers.0.weight'', 7)]
   \<and> rename_key ''norm.bias'' = ''norm.bias''
   \<and> rename_key ''head.norm.bias'' = ''norm.bias''"
    using C2_amended[where sd = "[(''head.layers.0.weight'', 7 :: int), (''head.head.weight'', 8)]"
                       and r = "''norm.bias''" and n = "''norm.bias''"] h k a
    by (simp del: map_of.simps)
  show ?thesis using rest mid' by blast
qed

subsection \<open>C3: the teacher is not trained\<close>

text \<open>C3. In distillation mode the optimizer is constructed over the student's parameters
  and nothing else; the student and the teacher share no tensor; and, with the trainer
  the specification describes, every parameter of the teacher has after the run (the
  training loop, the reload of the best checkpoint and the final test) the value it had
  when the trainer was constructed.\<close>

theorem C3:
  assumes kd: "trainer_train_kd x = spec_train_kd upd evalf"
    and te: "trainer_test x = spec_test evalf"
    and stp: "train_kd_setup x sc tc ck dc ld fp16 dev w0 = (Inr (tr, s, t, mp, tdl, vdl, tedl), w1)"
  shows "o_params (t_optimizer tr) = parameters s
       \<and> set (parameters s) \<inter> set (parameters t) = {}
       \<and> state_dict t (w_heap (snd (train_kd_run x dc (tr, s, t, mp, tdl, vdl, tedl) w1)))
           = state_dict t (w_heap w1)"
proof -
  have op: "o_params (t_optimizer tr) = parameters s"
    using train_kd_setup_result[OF stp] by simp
  have dj: "set (parameters s) \<inter> set (parameters t) = {}"
    using train_kd_setup_addrs[OF stp] .
  have fr: "w_heap (snd (train_kd_run x dc (tr, s, t, mp, tdl, vdl, tedl) w1)) ! a = w_heap w1 ! a"
    if "a \<in> set (parameters t)" for a
  proof -
    have "a \<notin> set (parameters s)" using that dj by auto
    from heap_train_kd_run[OF this op kd te, of dc t mp tdl vdl tedl]
    show ?thesis by (simp add: keeps_def)
  qed
  have "state_dict t (w_heap (snd (train_kd_run x dc (tr, s, t, mp, tdl, vdl, tedl) w1)))
          = state_dict t (w_heap w1)"
    unfolding state_dict_def using fr by (force simp: parameters_def)
  then show ?thesis using op dj by simp
qed

text \<open>C3 on the concrete run: the student's tensor moves from 0 to 3, the teacher's two
  tensors stay 7 and 0.\<close>

theorem C3_witness:
  "state_dict demo_teacher
     (w_heap (snd (train_kd_run demo_ext demo_data
        (demo_trainer_kd, to_device demo_student cuda0, demo_teacher, ''exp/latest/best.pt'',
         Some [1, 2], None, Some [3]) demo_kd_ready)))
   = [(''layers.0.weight'', 7), (''head.weight'', 0)]
   \<and> o_params (t_optimizer demo_trainer_kd) = [0]
   \<and> parameters demo_teacher = [1, 2]
   \<and> w_heap demo_kd_ready = [0, 7, 0]
   \<and> w_heap (snd (train_kd_run demo_ext demo_data
        (demo_trainer_kd, to_device demo_student cuda0, demo_teacher, ''exp/latest/best.pt'',
         Some [1, 2], None, Some [3]) demo_kd_ready)) = [3, 7, 0]"
proof -
  have kd: "trainer_train_kd demo_ext = spec_train_kd demo_upd demo_eval"
    by (simp add: demo_ext_def)
  have te: "trainer_test demo_ext = spec_test demo_eval"
    by (simp add: demo_ext_def)
  have h2: "train_kd_setup demo_ext demo_model [] ''exp/swin_teacher/best.pt'' demo_data
              ''exp/latest'' (YBool True) cuda0 (demo_state [] [] [CallTrainKD])
            = (Inr (demo_trainer_kd, to_device demo_student cuda0, demo_teacher,
                    ''exp/latest/best.pt'', Some [1, 2], None, Some [3]),
               demo_kd_ready)"
    by code_simp
  have sd: "state_dict demo_teacher (w_heap demo_kd_ready)
            = [(''layers.0.weight'', 7), (''head.weight'', 0)]" by code_simp
  have ps: "parameters (to_device demo_student cuda0) = [0]" by code_simp
  have pt: "parameters demo_teacher = [1, 2]" by code_simp
  have h0: "w_heap demo_kd_ready = [0, 7, 0]" by code_simp
  have hp: "w_heap (snd (train_kd_run demo_ext demo_data
        (demo_trainer_kd, to_device demo_student cuda0, demo_teacher, ''exp/latest/best.pt'',
         Some [1, 2], None, Some [3]) demo_kd_ready)) = [3, 7, 0]" by code_simp
  have "state_dict demo_teacher
     (w_heap (snd (train_kd_run demo_ext demo_data
        (demo_trainer_kd, to_device demo_student cuda0, demo_teacher, ''exp/latest/best.pt'',
         Some [1, 2], None, Some [3]) demo_kd_ready)))
   = [(''layers.0.weight'', 7), (''head.weight'', 0)]
   \<and> o_params (t_optimizer demo_trainer_kd) = [0]"
    using C3[OF kd te h2] sd ps by metis
  then show ?thesis using pt h0 hp by blast
qed

subsection \<open>C4: one training path per invocation\<close>

text \<open>C4 (amended). An invocation enters at most one of the two training functions,
  and never both: distillation training only with the flag set, plain training only
  without it. When the settings are loaded, the log directory is prepared and
  \<^verbatim>\<open>FP16\<close> is configured, exactly one is entered, selected by the flag, provided that in
  distillation mode the teacher checkpoint file exists; when it does not, none is.\<close>

theorem C4_amended:
  assumes "training_calls w0 = []"
  shows "(training_calls (snd (main x env c w0)) = []
           \<or> training_calls (snd (main x env c w0)) = [CallTrainKD] \<and> arg_distill_mode (parse_args c)
           \<or> training_calls (snd (main x env c w0)) = [CallTrain] \<and> \<not> arg_distill_mode (parse_args c))
       \<and> (load_settings x env (parse_args c) w0 = (Inr (mc, tc, ck, dc, dev, ld), w1)
            \<and> prepare_run x (parse_args c) mc dc ld w1 = (Inr (), w2)
            \<and> getitem dc ''FP16'' = Inr fp16
            \<and> (arg_distill_mode (parse_args c) \<longrightarrow> isfile (w_fs w2) ck)
           \<longrightarrow> training_calls (snd (main x env c w0))
                 = [if arg_distill_mode (parse_args c) then CallTrainKD else CallTrain])"
proof -
  have one: "training_calls (snd (main x env c w0)) = []
           \<or> training_calls (snd (main x env c w0)) = [CallTrainKD] \<and> arg_distill_mode (parse_args c)
           \<or> training_calls (snd (main x env c w0)) = [CallTrain] \<and> \<not> arg_distill_mode (parse_args c)"
    using main_calls_at_most_one[OF assms, of x env c] by blast
  have sel: "training_calls (snd (main x env c w0))
               = [if arg_distill_mode (parse_args c) then CallTrainKD else CallTrain]"
    if ls: "load_settings x env (parse_args c) w0 = (Inr (mc, tc, ck, dc, dev, ld), w1)"
      and pr: "prepare_run x (parse_args c) mc dc ld w1 = (Inr (), w2)"
      and fp: "getitem dc ''FP16'' = Inr fp16"
      and ok: "arg_distill_mode (parse_args c) \<longrightarrow> isfile (w_fs w2) ck"
  proof -
    have m: "main x env c w0 = dispatch x (parse_args c) (mc, tc, ck, dc, dev, ld) w2"
      using ls pr by (simp add: main_unfold)
    have t: "training_calls w2 = []"
      using keepsD[OF calls_load_settings ls] keepsD[OF calls_prepare_run pr] assms by simp
    show ?thesis
      using ok fp by (simp add: m dispatch_calls t calls_of_dispatch_def)
  qed
  show ?thesis using one sel by blast
qed

text \<open>C4 as stated fails: with the flag set and no teacher checkpoint file, the
  invocation enters neither training function.\<close>

theorem C4_counterexample:
  "training_calls demo_world = []
   \<and> arg_distill_mode (parse_args demo_cli_missing)
   \<and> training_calls (snd (main demo_ext [] demo_cli_missing demo_world)) = []"
  by code_simp

text \<open>C4 (amended) on two invocations: the flag given as the string \<^verbatim>\<open>False\<close>, and
  no flag.\<close>

theorem C4_witness:
  "training_calls (snd (main demo_ext [] demo_cli_kd demo_world)) = [CallTrainKD]
   \<and> training_calls (snd (main demo_ext [] demo_cli demo_world)) = [CallTrain]"
proof -
  have h0: "training_calls demo_world = []" by code_simp
  have k1: "load_settings demo_ext [] (parse_args demo_cli_kd) demo_world
            = (Inr (demo_model, [], ''exp/swin_teacher/best.pt'', demo_data, cpu, ''exp/latest''),
               demo_world\<lparr>w_trace := [SetSeed 42]\<rparr>)" by code_simp
  have k2: "prepare_run demo_ext (parse_args demo_cli_kd) demo_model demo_data ''exp/latest''
              (demo_world\<lparr>w_trace := [SetSeed 42]\<rparr>) = (Inr (), demo_ready)" by code_simp
  have k3: "getitem demo_data ''FP16'' = Inr (YBool True)" by code_simp
  have k4: "isfile (w_fs demo_ready) ''exp/swin_teacher/best.pt''" by code_simp
  have k5: "arg_distill_mode (parse_args demo_cli_kd)" by code_simp
  have p1: "load_settings demo_ext [] (parse_args demo_cli) demo_world
            = (Inr (demo_model, [], ''exp/swin_teacher/best.pt'', demo_data, cpu, ''exp/latest''),
               demo_world\<lparr>w_trace := [SetSeed 42]\<rparr>)" by code_simp
  have p2: "prepare_run demo_ext (parse_args demo_cli) demo_model demo_data ''exp/latest''
              (demo_world\<lparr>w_trace := [SetSeed 42]\<rparr>) = (Inr (), demo_ready)" by code_simp
  have p5: "\<not> arg_distill_mode (parse_args demo_cli)" by code_simp
  have a: "training_calls (snd (main demo_ext [] demo_cli_kd demo_world)) = [CallTrainKD]"
    using C4_amended[OF h0, of demo_ext "[]" demo_cli_kd demo_model "[]"
            "''exp/swin_teacher/best.pt''" demo_data cpu "''exp/latest''"
            "demo_world\<lparr>w_trace := [SetSeed 42]\<rparr>" demo_ready "YBool True"]
      k1 k2 k3 k4 k5 by simp
  have b: "training_calls (snd (main demo_ext [] demo_cli demo_world)) = [CallTrain]"
    using C4_amended[OF h0, of demo_ext "[]" demo_cli demo_model "[]"
            "''exp/swin_teacher/best.pt''" demo_data cpu "''exp/latest''"
            "demo_world\<lparr>w_trace := [SetSeed 42]\<rparr>" demo_ready "YBool True"]
      p1 p2 k3 p5 by simp
  show ?thesis using a b by simp
qed

subsection \<open>C5: the gradient scaler\<close>

text \<open>C5. In both training paths the trainer gets a gradient scaler if and only if
  \<^verbatim>\<open>fp16\<close> is true and the device differs from \<^verbatim>\<open>torch.device("cpu")\<close>; on that device
  the scaler is \<^verbatim>\<open>None\<close>. (The entry point passes \<^verbatim>\<open>cuda:0\<close> or \<^verbatim>\<open>cpu\<close>; a CPU device
  with an index, which only another caller could pass, differs from \<^verbatim>\<open>torch.device("cpu")\<close>.)\<close>

theorem C5:
  "(train_setup x mc dc ld fp16 dev w = (Inr (tr, rest), w')
      \<longrightarrow> (t_scaler tr \<noteq> None) = (truthy fp16 \<and> dev \<noteq> cpu) \<and> (dev = cpu \<longrightarrow> t_scaler tr = None))
   \<and> (train_kd_setup x mc tc ck dc ld fp16 dev w = (Inr (tr_kd, rest_kd), w'_kd)
      \<longrightarrow> (t_scaler tr_kd \<noteq> None) = (truthy fp16 \<and> dev \<noteq> cpu)
          \<and> (dev = cpu \<longrightarrow> t_scaler tr_kd = None))"
proof -
  have a: "t_scaler tr = make_scaler fp16 dev"
    if "train_setup x mc dc ld fp16 dev w = (Inr (tr, rest), w')"
  proof -
    obtain m mp dls where "rest = (m, mp, dls)" by (cases rest) auto
    then show ?thesis using train_setup_result that by blast
  qed
  have b: "t_scaler tr_kd = make_scaler fp16 dev"
    if "train_kd_setup x mc tc ck dc ld fp16 dev w = (Inr (tr_kd, rest_kd), w'_kd)"
  proof -
    obtain s t mp dls where "rest_kd = (s, t, mp, dls)" by (cases rest_kd) auto
    then show ?thesis using train_kd_setup_result that by blast
  qed
  show ?thesis using a b by (auto simp: make_scaler_def)
qed

text \<open>C5 on the concrete run: plain training on \<^verbatim>\<open>cpu\<close> gets no scaler, distillation on
  \<^verbatim>\<open>cuda:0\<close> gets one, \<^verbatim>\<open>FP16\<close> being true in both.\<close>

theorem C5_witness:
  "t_scaler demo_trainer = None \<and> truthy (YBool True)
   \<and> t_scaler demo_trainer_kd = Some GradScaler \<and> cuda0 \<noteq> cpu"
proof -
  have h1: "train_setup demo_ext demo_model demo_data ''exp/latest'' (YBool True) cpu
              (demo_state [] [] [CallTrain])
            = (Inr (demo_trainer, demo_student, ''exp/latest/best.pt'', Some [1, 2], None, Some [3]),
               demo_plain_ready)"
    by code_simp
  have h2: "train_kd_setup demo_ext demo_model [] ''exp/swin_teacher/best.pt'' demo_data
              ''exp/latest'' (YBool True) cuda0 (demo_state [] [] [CallTrainKD])
            = (Inr (demo_trainer_kd, to_device demo_student cuda0, demo_teacher,
                    ''exp/latest/best.pt'', Some [1, 2], None, Some [3]),
               demo_kd_ready)"
    by code_simp
  have t: "truthy (YBool True)" by simp
  have d: "cuda0 \<noteq> cpu" by (simp add: cuda0_def cpu_def)
  have a: "t_scaler demo_trainer = None"
    using C5[where x = demo_ext and mc = demo_model and dc = demo_data and ld = "''exp/latest''"
               and ?fp16.0 = "YBool True" and dev = cpu and w = "demo_state [] [] [CallTrain]"
               and tr = demo_trainer] h1 by blast
  have b: "t_scaler demo_trainer_kd \<noteq> None"
    using C5[where x = demo_ext and mc = demo_model and dc = demo_data and ld = "''exp/latest''"
               and ?fp16.0 = "YBool True" and dev = cuda0 and tc = "[]"
               and ck = "''exp/swin_teacher/best.pt''" and w = "demo_state [] [] [CallTrainKD]"
               and tr_kd = demo_trainer_kd] h2 t d by blast
  have c: "t_scaler demo_trainer_kd = Some GradScaler"
    using b by (cases "t_scaler demo_trainer_kd") (auto intro: scaler.exhaust)
  show ?thesis using a c t d by simp
qed

subsection \<open>C6: the final test\<close>

text \<open>C6. In \<^verbatim>\<open>train\<close> and in \<^verbatim>\<open>train_kd\<close> alike: when the training loop has completed,
  the checkpoint at \<^verbatim>\<open>os.path.join(log_dir, "best.pt")\<close> exists and loads strictly into
  the trained model, the test pass runs once on the model with the loaded parameters, and
  the function returns the triple (loss, F1, accuracy) of that pass, in this order.\<close>

theorem C6:
  "(train_setup x mc dc ld fp16 dev (w\<lparr>w_trace := w_trace w @ [CallTrain]\<rparr>)
        = (Inr (tr, m, mp, tdl, vdl, tedl), w1)
     \<and> getitem dc ''EPOCHS'' = Inr n
     \<and> call_ext (trainer_train x tr tdl n (pick_val vdl tedl))
         (w1\<lparr>w_trace := w_trace w1 @ [TrainerTrain]\<rparr>) = (Inr best, w2)
     \<and> torch_load (path_join ld ''best.pt'') (w_fs w2) = Inr sd
     \<and> fst (load_state_dict (same_shape x) m sd True w2) = Inr ()
     \<and> call_ext (trainer_test x tr m (pick_val vdl tedl))
         (w2\<lparr>w_heap := copy_params (same_shape x) sd (w_heap w2) (m_params m),
             w_trace := w_trace w2 @ [TrainerTest]\<rparr>) = (Inr (loss, f1, acc), w4)
    \<longrightarrow> train x mc dc ld fp16 dev w = (Inr (loss, f1, acc), w4)
        \<and> w_trace w4 = w_trace w1 @ [TrainerTrain, TrainerTest])
   \<and> (train_kd_setup x mc tc ck dc ld fp16 dev (w\<lparr>w_trace := w_trace w @ [CallTrainKD]\<rparr>)
        = (Inr (tr', s, t, mp', tdl', vdl', tedl'), w1')
     \<and> getitem dc ''EPOCHS'' = Inr n
     \<and> call_ext (trainer_train_kd x tr' tdl' n (pick_val vdl' tedl'))
         (w1'\<lparr>w_trace := w_trace w1' @ [TrainerTrainKD]\<rparr>) = (Inr best', w2')
     \<and> torch_load (path_join ld ''best.pt'') (w_fs w2') = Inr sd'
     \<and> fst (load_state_dict (same_shape x) s sd' True w2') = Inr ()
     \<and> call_ext (trainer_test x tr' s (pick_val vdl' tedl'))
         (w2'\<lparr>w_heap := copy_params (same_shape x) sd' (w_heap w2') (m_params s),
              w_trace := w_trace w2' @ [TrainerTest]\<rparr>) = (Inr (loss', f1', acc'), w4')
    \<longrightarrow> train_kd x mc tc ck dc ld fp16 dev w = (Inr (loss', f1', acc'), w4')
        \<and> w_trace w4' = w_trace w1' @ [TrainerTrainKD, TrainerTest])"
  using train_completes[of x mc dc ld fp16 dev w tr m mp tdl vdl tedl w1 n best w2 sd loss f1 acc w4]
        train_kd_completes[of x mc tc ck dc ld fp16 dev w tr' s t mp' tdl' vdl' tedl' w1' n best'
                              w2' sd' loss' f1' acc' w4']
  by blast

text \<open>C6 on the concrete run: two epochs take the student's tensor to 6, the checkpoint
  saved after the first epoch holds 3, and the final test runs on 3.\<close>

theorem C6_witness:
  "train demo_ext demo_model demo_data ''exp/latest'' (YBool True) cpu (demo_state [] [] [])
     = (Inr (1 / 4, 1 / 2, 3 / 4),
        demo_state (demo_cfg_files @ demo_best) [3]
          (w_trace demo_plain_ready @ [TrainerTrain, TrainerTest]))
   \<and> train_kd demo_ext demo_model [] ''exp/swin_teacher/best.pt'' demo_data ''exp/latest''
       (YBool True) cuda0 (demo_state [] [] [])
     = (Inr (1 / 4, 1 / 2, 3 / 4),
        demo_state (demo_cfg_files @ demo_best) [3, 7, 0]
          (w_trace demo_kd_ready @ [TrainerTrainKD, TrainerTest]))"
proof -
  have a1: "train_setup demo_ext demo_model demo_data ''exp/latest'' (YBool True) cpu
              ((demo_state [] [] [])\<lparr>w_trace := w_trace (demo_state [] [] []) @ [CallTrain]\<rparr>)
            = (Inr (demo_trainer, demo_student, ''exp/latest/best.pt'', Some [1, 2], None, Some [3]),
               demo_plain_ready)"
    by code_simp
  have ep: "getitem demo_data ''EPOCHS'' = Inr (YInt 2)" by code_simp
  have a2: "call_ext (trainer_train demo_ext demo_trainer (Some [1, 2]) (YInt 2)
                        (pick_val None (Some [3])))
              (demo_plain_ready\<lparr>w_trace := w_trace demo_plain_ready @ [TrainerTrain]\<rparr>)
            = (Inr (3 / 4, 1 / 2),
               demo_state (demo_cfg_files @ demo_best) [6]
                 (w_trace demo_plain_ready @ [TrainerTrain]))"
    by code_simp
  have a3: "torch_load (path_join ''exp/latest'' ''best.pt'')
              (w_fs (demo_state (demo_cfg_files @ demo_best) [6]
                 (w_trace demo_plain_ready @ [TrainerTrain])))
            = Inr [(''fc.weight'', 3)]"
    by code_simp
  have a4: "fst (load_state_dict (same_shape demo_ext) demo_student [(''fc.weight'', 3)] True
              (demo_state (demo_cfg_files @ demo_best) [6]
                 (w_trace demo_plain_ready @ [TrainerTrain]))) = Inr ()"
    by code_simp
  have a5: "call_ext (trainer_test demo_ext demo_trainer demo_student (pick_val None (Some [3])))
              ((demo_state (demo_cfg_files @ demo_best) [6]
                  (w_trace demo_plain_ready @ [TrainerTrain]))
               \<lparr>w_heap := copy_params (same_shape demo_ext) [(''fc.weight'', 3)]
                   (w_heap (demo_state (demo_cfg_files @ demo_best) [6]
                      (w_trace demo_plain_ready @ [TrainerTrain]))) (m_params demo_student),
                w_trace := w_trace (demo_state (demo_cfg_files @ demo_best) [6]
                      (w_trace demo_plain_ready @ [TrainerTrain])) @ [TrainerTest]\<rparr>)
            = (Inr (1 / 4, 1 / 2, 3 / 4),
               demo_state (demo_cfg_files @ demo_best) [3]
                 (w_trace demo_plain_ready @ [TrainerTrain, TrainerTest]))"
    by code_simp
  have b1: "train_kd_setup demo_ext demo_model [] ''exp/swin_teacher/best.pt'' demo_data
              ''exp/latest'' (YBool True) cuda0
              ((demo_state [] [] [])\<lparr>w_trace := w_trace (demo_state [] [] []) @ [CallTrainKD]\<rparr>)
            = (Inr (demo_trainer_kd, to_device demo_student cuda0, demo_teacher,
                    ''exp/latest/best.pt'', Some [1, 2], None, Some [3]),
               demo_kd_ready)"
    by code_simp
  have b2: "call_ext (trainer_train_kd demo_ext demo_trainer_kd (Some [1, 2]) (YInt 2)
                        (pick_val None (Some [3])))
              (demo_kd_ready\<lparr>w_trace := w_trace demo_kd_ready @ [TrainerTrainKD]\<rparr>)
            = (Inr (3 / 4, 1 / 2),
               demo_state (demo_cfg_files @ demo_best) [6, 7, 0]
                 (w_trace demo_kd_ready @ [TrainerTrainKD]))"
    by code_simp
  have b3: "torch_load (path_join ''exp/latest'' ''best.pt'')
              (w_fs (demo_state (demo_cfg_files @ demo_best) [6, 7, 0]
                 (w_trace demo_kd_ready @ [TrainerTrainKD])))
            = Inr [(''fc.weight'', 3)]"
    by code_simp
  have b4: "fst (load_state_dict (same_shape demo_ext) (to_device demo_student cuda0)
                   [(''fc.weight'', 3)] True
              (demo_state (demo_cfg_files @ demo_best) [6, 7, 0]
                 (w_trace demo_kd_ready @ [TrainerTrainKD]))) = Inr ()"
    by code_simp
  have b5: "call_ext (trainer_test demo_ext demo_trainer_kd (to_device demo_student cuda0)
                        (pick_val None (Some [3])))
              ((demo_state (demo_cfg_files @ demo_best) [6, 7, 0]
                  (w_trace demo_kd_ready @ [TrainerTrainKD]))
               \<lparr>w_heap := copy_params (same_shape demo_ext) [(''fc.weight'', 3)]
                   (w_heap (demo_state (demo_cfg_files @ demo_best) [6, 7, 0]
                      (w_trace demo_kd_ready @ [TrainerTrainKD])))
                   (m_params (to_device demo_student cuda0)),
                w_trace := w_trace (demo_state (demo_cfg_files @ demo_best) [6, 7, 0]
                      (w_trace demo_kd_ready @ [TrainerTrainKD])) @ [TrainerTest]\<rparr>)
            = (Inr (1 / 4, 1 / 2, 3 / 4),
               demo_state (demo_cfg_files @ demo_best) [3, 7, 0]
                 (w_trace demo_kd_ready @ [TrainerTrainKD, TrainerTest]))"
    by code_simp
  have a: "train demo_ext demo_model demo_data ''exp/latest'' (YBool True) cpu (demo_state [] [] [])
     = (Inr (1 / 4, 1 / 2, 3 / 4),
        demo_state (demo_cfg_files @ demo_best) [3]
          (w_trace demo_plain_ready @ [TrainerTrain, TrainerTest]))"
    using C6[where x = demo_ext and mc = demo_model and dc = demo_data
               and ld = "''exp/latest''" and ?fp16.0 = "YBool True" and dev = cpu
               and w = "demo_state [] [] []" and tr = demo_trainer and m = demo_student
               and mp = "''exp/latest/best.pt''" and tdl = "Some [1, 2]" and vdl = None
               and tedl = "Some [3]" and ?w1.0 = demo_plain_ready and n = "YInt 2"
               and best = "(3 / 4, 1 / 2)"
               and ?w2.0 = "demo_state (demo_cfg_files @ demo_best) [6]
                              (w_trace demo_plain_ready @ [TrainerTrain])"
               and sd = "[(''fc.weight'', 3)]" and loss = "1 / 4" and ?f1.0 = "1 / 2"
               and acc = "3 / 4"
               and ?w4.0 = "demo_state (demo_cfg_files @ demo_best) [3]
                              (w_trace demo_plain_ready @ [TrainerTrain, TrainerTest])"]
          a1 ep a2 a3 a4 a5 by blast
  have b: "train_kd demo_ext demo_model [] ''exp/swin_teacher/best.pt'' demo_data ''exp/latest''
       (YBool True) cuda0 (demo_state [] [] [])
     = (Inr (1 / 4, 1 / 2, 3 / 4),
        demo_state (demo_cfg_files @ demo_best) [3, 7, 0]
          (w_trace demo_kd_ready @ [TrainerTrainKD, TrainerTest]))"
    using C6[where x = demo_ext and mc = demo_model and dc = demo_data
               and ld = "''exp/latest''" and ?fp16.0 = "YBool True" and dev = cuda0
               and tc = "[]" and ck = "''exp/swin_teacher/best.pt''"
               and w = "demo_state [] [] []" and tr' = demo_trainer_kd
               and s = "to_device demo_student cuda0" and t = demo_teacher
               and mp' = "''exp/latest/best.pt''" and tdl' = "Some [1, 2]" and vdl' = None
               and tedl' = "Some [3]" and w1' = demo_kd_ready and n = "YInt 2"
               and best' = "(3 / 4, 1 / 2)"
               and w2' = "demo_state (demo_cfg_files @ demo_best) [6, 7, 0]
                              (w_trace demo_kd_ready @ [TrainerTrainKD])"
               and sd' = "[(''fc.weight'', 3)]" and loss' = "1 / 4" and f1' = "1 / 2"
               and acc' = "3 / 4"
               and w4' = "demo_state (demo_cfg_files @ demo_best) [3, 7, 0]
                              (w_trace demo_kd_ready @ [TrainerTrainKD, TrainerTest])"]
          b1 ep b2 b3 b4 b5 by blast
  show ?thesis using a b by simp
qed

subsection \<open>C7: rotation of an existing log directory\<close>

text \<open>C7. An existing log directory is to be renamed to a sibling named after the
  modification time of the \<^verbatim>\<open>best.pt\<close> in it. The code reads that time without checking
  that the file is there: a log directory without \<^verbatim>\<open>best.pt\<close> (the run of C1 leaves
  one behind) is not renamed, and the next run ends at line 257 with
  \<^verbatim>\<open>FileNotFoundError\<close>, whatever its mode.\<close>

theorem C7_failing_run:
  "w_fs (snd (main demo_ext [] demo_cli_missing demo_world)) = w_fs demo_stale
   \<and> path_exists (w_fs demo_stale) ''exp/latest''
   \<and> \<not> path_exists (w_fs demo_stale) ''exp/latest/best.pt''
   \<and> fst (main demo_ext [] demo_cli demo_stale) = Inl (FileNotFoundError ''exp/latest/best.pt'')
   \<and> w_fs (snd (main demo_ext [] demo_cli demo_stale)) = w_fs demo_stale"
  by code_simp

text \<open>The same for every log directory that exists and has nothing at \<^verbatim>\<open>best.pt\<close>.\<close>

lemma rotate_without_checkpoint:
  assumes "path_exists (w_fs w) ld" and "\<not> path_exists (w_fs w) (ld @ ''/best.pt'')"
  shows "rotate_log_dir x ld w = (Inl (FileNotFoundError (ld @ ''/best.pt'')), w)"
  using assms
  by (simp add: rotate_log_dir_def and_then_def fs_read_def getmtime_def path_exists_def)

text \<open>With a \<^verbatim>\<open>best.pt\<close> in it, \<^verbatim>\<open>exp/latest\<close> moves to a sibling with its content. A log
  directory given as a single relative name moves to the root of the file system, since
  \<^verbatim>\<open>os.path.dirname\<close> of it is empty.\<close>

lemma rotate_existing_run:
  "fst (rotate_log_dir demo_ext ''exp/latest'' (demo_state (demo_cfg_files @ demo_best) [] []))
     = Inr ()
   \<and> map (\<lambda>p. path_exists (w_fs (snd (rotate_log_dir demo_ext ''exp/latest''
                  (demo_state (demo_cfg_files @ demo_best) [] [])))) p)
       [''exp/latest'', ''exp/2021-11-25_10-00-00'', ''exp/2021-11-25_10-00-00/best.pt'']
     = [False, True, True]"
  by code_simp

lemma rotate_relative_log_dir:
  "map fst (w_fs (snd (rotate_log_dir demo_ext ''model''
      (demo_world\<lparr>w_fs := [(''model'', Dir 50), (''model/best.pt'', File 60 (Ckpt []))]\<rparr>))))
   = [''/2021-11-25_10-00-00'', ''/2021-11-25_10-00-00/best.pt'']"
  by code_simp

subsection \<open>C8: permissive loading of the teacher\<close>

text \<open>C8. Loading the renamed teacher state dict with \<^verbatim>\<open>strict=False\<close> raises no error
  for a key that is missing or unexpected: provided the shapes fit wherever a key is
  present, the call returns, the values of the keys present are copied, and a tensor
  none of whose names is a key keeps its value.\<close>

theorem C8:
  assumes "\<And>n a v. (n, a) \<in> set (m_params t) \<Longrightarrow> map_of (rename_loop sd []) n = Some v
             \<Longrightarrow> same (w_heap w ! a) v"
  shows "load_state_dict same t (rename_loop sd []) False w
           = (Inr (), w\<lparr>w_heap := copy_params same (rename_loop sd []) (w_heap w) (m_params t)\<rparr>)
       \<and> (\<forall>a. (\<forall>n. (n, a) \<in> set (m_params t) \<longrightarrow> map_of (rename_loop sd []) n = None)
             \<longrightarrow> copy_params same (rename_loop sd []) (w_heap w) (m_params t) ! a = w_heap w ! a)"
  using load_state_dict_permissive[of t "rename_loop sd []" same w] assms
        copy_params_absent[of _ "m_params t" "rename_loop sd []" same "w_heap w"]
  by blast

text \<open>C8 on the concrete checkpoint: \<^verbatim>\<open>head.weight\<close> is missing and \<^verbatim>\<open>weight\<close> is
  unexpected; the permissive load returns and leaves the teacher's head at 0, where a
  strict load raises.\<close>

theorem C8_witness:
  "rename_loop [(''head.layers.0.weight'', 7), (''head.head.weight'', 8)] []
     = [(''layers.0.weight'', 7 :: int), (''weight'', 8)]
   \<and> m_params demo_teacher = [(''layers.0.weight'', 1), (''head.weight'', 2)]
   \<and> load_state_dict (\<lambda>a b. True) demo_teacher
        (rename_loop [(''head.layers.0.weight'', 7), (''head.head.weight'', 8)] []) False
        (demo_state [] [0, 0, 0] [])
      = (Inr (), demo_state [] [0, 7, 0] [])
   \<and> fst (load_state_dict (\<lambda>a b. True) demo_teacher
        (rename_loop [(''head.layers.0.weight'', 7), (''head.head.weight'', 8)] []) True
        (demo_state [] [0, 0, 0] []))
      = Inl (RuntimeError ''Error(s) in loading state_dict'')"
proof -
  have r: "rename_loop [(''head.layers.0.weight'', 7), (''head.head.weight'', 8)] []
             = [(''layers.0.weight'', 7 :: int), (''weight'', 8)]" by code_simp
  have m: "m_params demo_teacher = [(''layers.0.weight'', 1), (''head.weight'', 2)]" by code_simp
  have c: "(demo_state [] [0, 0, 0] [])\<lparr>w_heap := copy_params (\<lambda>a b. True)
              (rename_loop [(''head.layers.0.weight'', 7), (''head.head.weight'', 8)] [])
              (w_heap (demo_state [] [0, 0, 0] [])) (m_params demo_teacher)\<rparr>
           = demo_state [] [0, 7, 0] []" by code_simp
  have s: "fst (load_state_dict (\<lambda>a b. True) demo_teacher
        (rename_loop [(''head.layers.0.weight'', 7), (''head.head.weight'', 8)] []) True
        (demo_state [] [0, 0, 0] []))
      = Inl (RuntimeError ''Error(s) in loading state_dict'')" by code_simp
  have "load_state_dict (\<lambda>a b. True) demo_teacher
        (rename_loop [(''head.layers.0.weight'', 7), (''head.head.weight'', 8)] []) False
        (demo_state [] [0, 0, 0] [])
      = (Inr (), demo_state [] [0, 7, 0] [])"
    using C8[where same = "\<lambda>a b. True" and t = demo_teacher
               and sd = "[(''head.layers.0.weight'', 7), (''head.head.weight'', 8)]"
               and w = "demo_state [] [0, 0, 0] []"] c by simp
  then show ?thesis using r m s by blast
qed

subsection \<open>C9: the two environment variables\<close>

text \<open>C9. When the configurations load and the data configuration has a \<^verbatim>\<open>DATA_PATH\<close>,
  the settings are loaded without error; \<^verbatim>\<open>DATA_PATH\<close> then holds the value of
  \<^verbatim>\<open>SM_CHANNEL_TRAIN\<close> when that variable is set and the configured value otherwise,
  every other key is as configured, and the log directory is the value of
  \<^verbatim>\<open>SM_MODEL_DIR\<close> when that variable is set and \<^verbatim>\<open>exp/latest\<close> otherwise.\<close>

theorem C9:
  assumes "read_yaml x (arg_model a) = Inr mc"
    and "get_config x (arg_teacher_model a) = Inr tc"
    and "read_yaml x (arg_data a) = Inr dc0"
    and "map_of dc0 ''DATA_PATH'' = Some v0"
  shows "\<exists>dc dev w'.
           load_settings x env a w =
             (Inr (mc, tc, arg_teacher_checkpoints a, dc, dev,
                   (case map_of env ''SM_MODEL_DIR'' of None \<Rightarrow> ''exp/latest'' | Some s \<Rightarrow> s)), w')
           \<and> map_of dc = (map_of dc0)(''DATA_PATH'' \<mapsto>
                 (case map_of env ''SM_CHANNEL_TRAIN'' of None \<Rightarrow> v0 | Some s \<Rightarrow> YStr s))"
  using load_settings_result[OF assms, of env w] by (simp add: update_conv')

text \<open>C9 with both variables set, and with neither.\<close>

theorem C9_witness:
  "(\<exists>dc dev w'.
      load_settings demo_ext demo_env (parse_args demo_cli) demo_world =
        (Inr (demo_model, [], ''exp/swin_teacher/best.pt'', dc, dev, ''/opt/ml/model''), w')
      \<and> map_of dc = (map_of demo_data)(''DATA_PATH'' \<mapsto> YStr ''/opt/ml/input/data/train''))
   \<and> (\<exists>dc dev w'.
      load_settings demo_ext [] (parse_args demo_cli) demo_world =
        (Inr (demo_model, [], ''exp/swin_teacher/best.pt'', dc, dev, ''exp/latest''), w')
      \<and> map_of dc = (map_of demo_data)(''DATA_PATH'' \<mapsto> YStr ''/data/taco''))"
proof -
  have h1: "read_yaml demo_ext (arg_model (parse_args demo_cli)) = Inr demo_model" by code_simp
  have h2: "get_config demo_ext (arg_teacher_model (parse_args demo_cli)) = Inr []" by code_simp
  have h3: "read_yaml demo_ext (arg_data (parse_args demo_cli)) = Inr demo_data" by code_simp
  have h4: "map_of demo_data ''DATA_PATH'' = Some (YStr ''/data/taco'')" by code_simp
  have e1: "map_of demo_env ''SM_MODEL_DIR'' = Some ''/opt/ml/model''" by code_simp
  have e2: "map_of demo_env ''SM_CHANNEL_TRAIN'' = Some ''/opt/ml/input/data/train''" by code_simp
  have e3: "arg_teacher_checkpoints (parse_args demo_cli) = ''exp/swin_teacher/best.pt''"
    by code_simp
  have a: "\<exists>dc dev w'.
      load_settings demo_ext demo_env (parse_args demo_cli) demo_world =
        (Inr (demo_model, [], ''exp/swin_teacher/best.pt'', dc, dev, ''/opt/ml/model''), w')
      \<and> map_of dc = (map_of demo_data)(''DATA_PATH'' \<mapsto> YStr ''/opt/ml/input/data/train'')"
    using C9[OF h1 h2 h3 h4, of demo_env demo_world] unfolding e1 e2 e3 by simp
  have b: "\<exists>dc dev w'.
      load_settings demo_ext [] (parse_args demo_cli) demo_world =
        (Inr (demo_model, [], ''exp/swin_teacher/best.pt'', dc, dev, ''exp/latest''), w')
      \<and> map_of dc = (map_of demo_data)(''DATA_PATH'' \<mapsto> YStr ''/data/taco'')"
    using C9[OF h1 h2 h3 h4, of "[]" demo_world] unfolding e3 by simp
  show ?thesis using a b by blast
qed

subsection \<open>C10: the flag is converted with \<^verbatim>\<open>bool\<close>\<close>

text \<open>C10. The distillation flag is true exactly when a non-empty string is given for it,
  the string \<^verbatim>\<open>False\<close> included; plain training is entered only when the option is
  absent or given the empty string, and with a non-empty string no training function
  other than the distillation one is entered.\<close>

theorem C10:
  "arg_distill_mode (parse_args c) = (\<exists>s. cli_distill_mode c = Some s \<and> s \<noteq> [])
   \<and> arg_distill_mode (parse_args (c\<lparr>cli_distill_mode := Some ''False''\<rparr>))
   \<and> (training_calls w0 = [] \<and> CallTrain \<in> set (training_calls (snd (main x env c w0)))
        \<longrightarrow> cli_distill_mode c = None \<or> cli_distill_mode c = Some [])
   \<and> (training_calls w0 = [] \<and> cli_distill_mode c = Some s \<and> s \<noteq> []
        \<longrightarrow> training_calls (snd (main x env c w0)) = []
            \<or> training_calls (snd (main x env c w0)) = [CallTrainKD])"
proof -
  have a: "arg_distill_mode (parse_args c) = (\<exists>s. cli_distill_mode c = Some s \<and> s \<noteq> [])" for c
    by (auto simp: parse_args_def py_bool_def split: option.splits)
  have b: "arg_distill_mode (parse_args (c\<lparr>cli_distill_mode := Some ''False''\<rparr>))"
    by (simp add: parse_args_def py_bool_def)
  have c: "cli_distill_mode c = None \<or> cli_distill_mode c = Some []"
    if "training_calls w0 = []" "CallTrain \<in> set (training_calls (snd (main x env c w0)))"
  proof -
    have "\<not> arg_distill_mode (parse_args c)"
      using main_calls_at_most_one[OF that(1), of x env c] that(2) by auto
    then show ?thesis using a[of c] by (cases "cli_distill_mode c") auto
  qed
  have d: "training_calls (snd (main x env c w0)) = []
            \<or> training_calls (snd (main x env c w0)) = [CallTrainKD]"
    if "training_calls w0 = []" "cli_distill_mode c = Some s" "s \<noteq> []"
  proof -
    have "arg_distill_mode (parse_args c)" using a[of c] that by simp
    then show ?thesis using main_calls_at_most_one[OF that(1), of x env c] by auto
  qed
  show ?thesis using a[of c] b c d by blast
qed

text \<open>C10 on the string \<^verbatim>\<open>False\<close> and on an absent option.\<close>

theorem C10_witness:
  "arg_distill_mode (parse_args demo_cli_kd)
   \<and> cli_distill_mode demo_cli_kd = Some ''False''
   \<and> training_calls (snd (main demo_ext [] demo_cli_kd demo_world)) = [CallTrainKD]
   \<and> CallTrain \<in> set (training_calls (snd (main demo_ext [] demo_cli demo_world)))
   \<and> cli_distill_mode demo_cli = None"
proof -
  have h0: "training_calls demo_world = []" by code_simp
  have h1: "cli_distill_mode demo_cli_kd = Some ''False''" by code_simp
  have h2: "''False'' \<noteq> []" by simp
  have h3: "CallTrain \<in> set (training_calls (snd (main demo_ext [] demo_cli demo_world)))"
    by code_simp
  have h4: "training_calls (snd (main demo_ext [] demo_cli_kd demo_world)) \<noteq> []" by code_simp
  have h5: "cli_distill_mode demo_cli \<noteq> Some []" by code_simp
  have a: "arg_distill_mode (parse_args demo_cli_kd)"
    using C10[of demo_cli_kd demo_world demo_ext "[]" "''False''"] h1 by simp
  have b: "training_calls (snd (main demo_ext [] demo_cli_kd demo_world)) = [CallTrainKD]"
    using C10[of demo_cli_kd demo_world demo_ext "[]" "''False''"] h0 h1 h2 h4 by blast
  have c: "cli_distill_mode demo_cli = None"
    using C10[of demo_cli demo_world demo_ext "[]" "''x''"] h0 h3 h5 by blast
  show ?thesis using a b c h1 h3 by simp
qed


end
